theory Spec2Isabelle
  imports Main "HOL-Library.Word"
begin

section \<open>Machine types and the structures exchanged with the kernel\<close>

text \<open>
  The driver (\<^verbatim>\<open>src/videocapture.cpp\<close>) talks to a V4L2 device node. Its C
  integers are modelled as follows: a value that is only copied and compared is an
  \<open>int\<close>; the unsigned fields of the kernel structures are words of their width, and
  every conversion between the two is written out where the source performs it.
\<close>

type_synonym byte = "8 word"
type_synonym u16 = "16 word"
type_synonym u32 = "32 word"
type_synonym u64 = "64 word"

text \<open>
  Modelled from the spec: the enumerations \<^verbatim>\<open>RESOLUTION\<close> and \<^verbatim>\<open>SL_DEVICE\<close> are
  declared in the header \<^verbatim>\<open>videocapture.hpp\<close>, which is not among the sources. The
  enumerators are the ones the source names: the four resolution tiers and the model
  tags of the specification. \<open>RES_other\<close> stands for any further value of the
  resolution type, which the \<^verbatim>\<open>switch\<close> of \<^verbatim>\<open>checkResFps\<close> sends to its
  \<^verbatim>\<open>default:\<close> label.
\<close>

datatype RESOLUTION = HD2K | HD1080 | HD720 | VGA | RES_other

datatype SL_DEVICE = ZED | ZED_M | ZED_CBS | ZED_M_CBS | ZED_2_CBS | NONE

text \<open>
  Modelled from the spec: the entries of the table \<^verbatim>\<open>cameraResolution\<close> and the
  parameters of the constructor are declared in the header as well; the fields are the
  ones \<^verbatim>\<open>checkResFps\<close> reads, the frame rate being the value of
  \<^verbatim>\<open>static_cast<int>(par.fps)\<close>.
\<close>

record Resolution =
  res_width :: int
  res_height :: int

record Params =
  par_res :: RESOLUTION
  par_fps :: int
  par_verbose :: bool

text \<open>Only the fields the source reads or writes are kept in each structure.\<close>

record v4l2_format =
  fmt_type :: u32
  pix_width :: u32
  pix_height :: u32
  pix_pixelformat :: u32
  pix_field :: u32
  pix_bytesperline :: u32

record v4l2_streamparm =
  sp_type :: u32
  sp_capturemode :: u32
  sp_numerator :: u32
  sp_denominator :: u32

record v4l2_requestbuffers =
  rb_count :: u32
  rb_type :: u32
  rb_memory :: u32

record v4l2_buffer =
  vb_index :: u32
  vb_type :: u32
  vb_bytesused :: u32
  vb_flags :: u32
  vb_tv_sec :: u64
  vb_tv_usec :: u64
  vb_memory :: u32
  vb_offset :: u32
  vb_length :: u32

record v4l2_queryctrl =
  qc_id :: u32
  qc_minimum :: int
  qc_maximum :: int
  qc_step :: int
  qc_default_value :: int

record v4l2_control =
  ctl_id :: u32
  ctl_value :: int

record uvc_xu_control_query =
  xu_unit :: byte
  xu_selector :: byte
  xu_query :: byte
  xu_size :: u16
  xu_data :: "byte list"

datatype ioctl_code =
    VIDIOC_QUERYCAP | VIDIOC_CROPCAP | VIDIOC_S_FMT | VIDIOC_S_PARM | VIDIOC_REQBUFS
  | VIDIOC_QUERYBUF | VIDIOC_QBUF | VIDIOC_DQBUF | VIDIOC_G_PRIORITY | VIDIOC_STREAMON
  | VIDIOC_STREAMOFF | VIDIOC_QUERYCTRL | VIDIOC_G_CTRL | VIDIOC_S_CTRL | UVCIOC_CTRL_QUERY

text \<open>The third argument of \<^verbatim>\<open>ioctl\<close>: the structure the pointer refers to.\<close>

datatype ioctl_arg =
    A_capability
  | A_cropcap u32
  | A_type u32
  | A_priority int
  | A_format v4l2_format
  | A_streamparm v4l2_streamparm
  | A_requestbuffers v4l2_requestbuffers
  | A_buffer v4l2_buffer
  | A_queryctrl v4l2_queryctrl
  | A_control v4l2_control
  | A_xu uvc_xu_control_query

section \<open>The environment: kernel, device and process state\<close>

text \<open>
  Every system call the driver issues is recorded, with what it returned. An \<open>Ioctl\<close>
  event holds the descriptor, the request, the structure as passed, the return value and
  \<^verbatim>\<open>errno\<close> after the call.
\<close>

datatype event =
    Ioctl (ev_fd: int) (ev_code: ioctl_code) (ev_arg: ioctl_arg) (ev_ret: int) (ev_errno: int)
  | Open nat int
  | Close int
  | Mmap nat int u32 int
  | Munmap int nat

text \<open>
  The state outside the object: the device and kernel (\<open>dev\<close>, of any type), the
  thread's \<^verbatim>\<open>errno\<close>, the calls made so far, and the memory mappings that are
  live (start address and length).
\<close>

record 'd world =
  dev :: 'd
  errno :: int
  trace :: "event list"
  mappings :: "(int \<times> nat) list"

text \<open>
  How the kernel and the device answer is a parameter of the model: any functions of
  the device state. \<open>k_ioctl\<close> gives the return value, \<^verbatim>\<open>errno\<close> after the call
  and the structure as the kernel leaves it. \<open>k_model\<close> is what
  \<^verbatim>\<open>getCameraModel\<close> finds for the node \<^verbatim>\<open>/dev/video<id>\<close>, \<open>k_stat\<close> the return
  value of \<^verbatim>\<open>stat\<close> and whether the node is a character device, \<open>k_open\<close> the
  descriptor (or -1), \<open>k_mmap\<close> the address (or \<^verbatim>\<open>MAP_FAILED\<close>), \<open>k_read\<close> the
  bytes of a mapping, \<open>k_time\<close> the two clocks read by \<^verbatim>\<open>openCamera\<close>.
\<close>

record 'd kernel =
  k_ioctl :: "'d \<Rightarrow> int \<Rightarrow> ioctl_code \<Rightarrow> ioctl_arg \<Rightarrow> int \<times> int \<times> ioctl_arg \<times> 'd"
  k_model :: "'d \<Rightarrow> nat \<Rightarrow> SL_DEVICE"
  k_stat :: "'d \<Rightarrow> nat \<Rightarrow> int \<times> bool"
  k_open :: "'d \<Rightarrow> nat \<Rightarrow> int \<times> 'd"
  k_mmap :: "'d \<Rightarrow> nat \<Rightarrow> int \<Rightarrow> u32 \<Rightarrow> int \<times> 'd"
  k_read :: "'d \<Rightarrow> int \<Rightarrow> nat \<Rightarrow> byte list"
  k_time :: "'d \<Rightarrow> u64 \<times> u64"

definition EINTR :: int where "EINTR = 4"
definition EAGAIN :: int where "EAGAIN = 11"
definition ETIMEDOUT :: int where "ETIMEDOUT = 110"

definition MAP_FAILED :: int where "MAP_FAILED = - 1"

definition sys_ioctl ::
  "'d kernel \<Rightarrow> int \<Rightarrow> ioctl_code \<Rightarrow> ioctl_arg \<Rightarrow> 'd world \<Rightarrow> int \<times> ioctl_arg \<times> 'd world" where
  "sys_ioctl K fd code arg w =
     (case k_ioctl K (dev w) fd code arg of
        (ret, e, arg', d') \<Rightarrow>
          (ret, arg', w\<lparr>dev := d', errno := e, trace := trace w @ [Ioctl fd code arg ret e]\<rparr>))"

text \<open>The calls issued between two states of the world.\<close>

definition issued :: "'d world \<Rightarrow> 'd world \<Rightarrow> event list" where
  "issued w w' = drop (length (trace w)) (trace w')"

section \<open>The object\<close>

text \<open>
  Modelled from the spec: the class \<^verbatim>\<open>VideoCapture\<close> and the structures
  \<^verbatim>\<open>Buffer\<close> and \<^verbatim>\<open>Frame\<close> are declared in the header. The members are the ones the
  modelled functions use, with the types their use in the source shows (\<^verbatim>\<open>mWidth\<close> is
  copied to an \<^verbatim>\<open>int\<close>, \<^verbatim>\<open>mBufCount\<close> runs as an unsigned loop counter); the
  frame is the specification's width, height, channel count, frame id, timestamp and
  payload, its width, height and channel count taken to be \<^verbatim>\<open>int\<close>s like the members
  of the object they are copied from. \<open>mBuffers = None\<close> is the null pointer, \<open>Some bs\<close> an array of
  \<open>length bs\<close> elements. \<open>frame_data = None\<close> is a null payload pointer,
  \<open>Some p\<close> an allocation of \<open>length p\<close> bytes. \<open>mGrabJoinable\<close> is
  \<^verbatim>\<open>mGrabThread.joinable()\<close>.
\<close>

record Buffer =
  buf_start :: int
  buf_length :: nat

record Frame =
  frame_id :: u64
  frame_timestamp :: u64
  frame_data :: "byte list option"
  frame_width :: int
  frame_height :: int
  frame_channels :: int

record VideoCapture =
  mVerbose :: bool
  mDevId :: nat
  mCameraModel :: SL_DEVICE
  mFileDesc :: int
  mInitialized :: bool
  mWidth :: int
  mHeight :: int
  mChannels :: int
  mFps :: int
  mBuffers :: "Buffer list option"
  mBufCount :: nat
  mLastFrame :: Frame
  mNewFrame :: bool
  mStopCapture :: bool
  mGrabRunning :: bool
  mGrabJoinable :: bool
  mCurrentIndex :: nat
  mStartTs :: u64
  mInitTs :: u64

section \<open>Mode negotiation: \<^verbatim>\<open>checkResFps\<close>\<close>

text \<open>
  Lines 113-186. The table \<^verbatim>\<open>cameraResolution\<close> is declared in the header and is a
  parameter here, taken to hold an entry for the resolution passed. The
  \<^verbatim>\<open>default:\<close> label comes first in the \<^verbatim>\<open>switch\<close> and falls through into the
  \<^verbatim>\<open>HD2K\<close> case; the messages printed are left out.
\<close>

definition checkResFps :: "(RESOLUTION \<Rightarrow> Resolution) \<Rightarrow> Params \<Rightarrow> VideoCapture \<Rightarrow> VideoCapture" where
  "checkResFps cameraResolution par vc =
     (let vc1 = vc\<lparr>mWidth := res_width (cameraResolution (par_res par)) * 2,
                   mHeight := res_height (cameraResolution (par_res par)),
                   mFps := par_fps par\<rparr>;
          fps = mFps vc1
      in case par_res par of
           RES_other \<Rightarrow> (if fps \<noteq> 15 then vc1\<lparr>mFps := 15\<rparr> else vc1)
         | HD2K \<Rightarrow> (if fps \<noteq> 15 then vc1\<lparr>mFps := 15\<rparr> else vc1)
         | HD1080 \<Rightarrow>
             (if fps \<noteq> 15 \<and> fps \<noteq> 30
              then (if fps \<le> 22 then vc1\<lparr>mFps := 15\<rparr> else vc1\<lparr>mFps := 30\<rparr>)
              else vc1)
         | HD720 \<Rightarrow>
             (if fps \<noteq> 15 \<and> fps \<noteq> 30 \<and> fps \<noteq> 60
              then (if fps \<le> 22 then vc1\<lparr>mFps := 15\<rparr>
                    else if fps < 45 then vc1\<lparr>mFps := 30\<rparr>
                    else vc1\<lparr>mFps := 60\<rparr>)
              else vc1)
         | VGA \<Rightarrow>
             (if fps \<noteq> 15 \<and> fps \<noteq> 30 \<and> fps \<noteq> 60 \<and> fps \<noteq> 100
              then (if fps \<le> 22 then vc1\<lparr>mFps := 15\<rparr>
                    else if fps < 45 then vc1\<lparr>mFps := 30\<rparr>
                    else if fps < 80 then vc1\<lparr>mFps := 60\<rparr>
                    else vc1\<lparr>mFps := 100\<rparr>)
              else vc1))"

section \<open>The control channel: \<^verbatim>\<open>xioctl\<close>\<close>

text \<open>
  Lines 513-535. \<^verbatim>\<open>tries\<close> starts at \<^verbatim>\<open>IOCTL_RETRY\<close> and only counts down; the
  test \<^verbatim>\<open>tries--\<close> fails when it is 0, so a natural number holds it. The same
  structure is handed to every attempt, as the kernel left it. The message of
  \<^verbatim>\<open>perror\<close> is left out.
\<close>

definition IOCTL_RETRY :: nat where "IOCTL_RETRY = 3"

fun xioctl_loop ::
  "'d kernel \<Rightarrow> int \<Rightarrow> ioctl_code \<Rightarrow> nat \<Rightarrow> ioctl_arg \<Rightarrow> 'd world \<Rightarrow> int \<times> ioctl_arg \<times> 'd world" where
  "xioctl_loop K fd code tries arg w =
     (case sys_ioctl K fd code arg w of
        (ret, arg', w') \<Rightarrow>
          if ret \<noteq> 0 \<and> tries \<noteq> 0 \<and>
             (errno w' = EINTR \<or> errno w' = EAGAIN \<or> errno w' = ETIMEDOUT)
          then xioctl_loop K fd code (tries - 1) arg' w'
          else (ret, arg', w'))"

declare xioctl_loop.simps [simp del]

definition xioctl ::
  "'d kernel \<Rightarrow> int \<Rightarrow> ioctl_code \<Rightarrow> ioctl_arg \<Rightarrow> 'd world \<Rightarrow> int \<times> ioctl_arg \<times> 'd world" where
  "xioctl K fd code arg w = xioctl_loop K fd code IOCTL_RETRY arg w"

text \<open>The errors the loop takes as transient.\<close>

definition transient_errno :: "int \<Rightarrow> bool" where
  "transient_errno e = (e = EINTR \<or> e = EAGAIN \<or> e = ETIMEDOUT)"

text \<open>A device on which every request is interrupted.\<close>

definition K_interrupted :: "unit kernel" where
  "K_interrupted =
     \<lparr>k_ioctl = (\<lambda>d fd code arg. (- 1, EINTR, arg, d)),
      k_model = (\<lambda>d n. NONE),
      k_stat = (\<lambda>d n. (- 1, False)),
      k_open = (\<lambda>d n. (- 1, d)),
      k_mmap = (\<lambda>d len fd off. (MAP_FAILED, d)),
      k_read = (\<lambda>d a n. []),
      k_time = (\<lambda>d. (0, 0))\<rparr>"

definition w_start :: "unit world" where
  "w_start = \<lparr>dev = (), errno = 0, trace = [], mappings = []\<rparr>"

text \<open>A device that is busy twice and then answers.\<close>

definition K_flaky :: "nat kernel" where
  "K_flaky =
     \<lparr>k_ioctl = (\<lambda>d fd code arg. if d < 2 then (- 1, EAGAIN, arg, Suc d) else (0, 0, arg, Suc d)),
      k_model = (\<lambda>d n. NONE),
      k_stat = (\<lambda>d n. (- 1, False)),
      k_open = (\<lambda>d n. (- 1, d)),
      k_mmap = (\<lambda>d len fd off. (MAP_FAILED, d)),
      k_read = (\<lambda>d a n. []),
      k_time = (\<lambda>d. (0, 0))\<rparr>"

definition w_flaky :: "nat world" where
  "w_flaky = \<lparr>dev = 0, errno = 0, trace = [], mappings = []\<rparr>"

section \<open>The vendor protocol: \<^verbatim>\<open>linux_cbs_VendorControl\<close> and the GPIO commands\<close>

definition cbs_xu_unit_id :: byte where "cbs_xu_unit_id = 0x04"
definition cbs_xu_control_selector :: byte where "cbs_xu_control_selector = 0x02"
definition READ_MODE :: int where "READ_MODE = 1"
definition WRITE_MODE :: int where "WRITE_MODE = 2"
definition XU_TASK_SET :: byte where "XU_TASK_SET = 0x50"
definition XU_TASK_GET :: byte where "XU_TASK_GET = 0x51"
definition UVC_SET_CUR :: byte where "UVC_SET_CUR = 0x01"
definition UVC_GET_CUR :: byte where "UVC_GET_CUR = 0x81"
definition UVC_GET_LEN :: byte where "UVC_GET_LEN = 0x85"

text \<open>
  The kernel answers through the buffer the query points to: the bytes it stores replace
  the first bytes of the caller's array, whose size does not change.
\<close>

definition write_back :: "byte list \<Rightarrow> byte list \<Rightarrow> byte list" where
  "write_back old new = take (length old) new @ drop (length new) old"

definition xu_reply :: "ioctl_arg \<Rightarrow> byte list \<Rightarrow> byte list" where
  "xu_reply a old = (case a of A_xu q \<Rightarrow> write_back old (xu_data q) | _ \<Rightarrow> old)"

text \<open>
  Lines 705-813. The result is the return value, the caller's buffer after the call and
  the world. The mutex and the settle delay (\<^verbatim>\<open>usleep\<close>, which is all the parameter
  \<^verbatim>\<open>safe\<close> decides) are left out; so is the text chosen for a failure, which the
  source never prints. Each query carries the caller's array as it is, with the size
  the device reported for the control.
\<close>

definition linux_cbs_VendorControl ::
  "'d kernel \<Rightarrow> VideoCapture \<Rightarrow> byte list \<Rightarrow> int \<Rightarrow> int \<Rightarrow> 'd world \<Rightarrow> int \<times> byte list \<times> 'd world" where
  "linux_cbs_VendorControl K vc buf len readMode w =
     (if len > 384 then (- 2, buf, w)
      else if \<not> mInitialized vc then (- 3, buf, w)
      else
        case sys_ioctl K (mFileDesc vc) UVCIOC_CTRL_QUERY
               (A_xu \<lparr>xu_unit = cbs_xu_unit_id, xu_selector = cbs_xu_control_selector,
                      xu_query = UVC_GET_LEN, xu_size = 2, xu_data = [0, 0]\<rparr>) w of
          (io_err, a1, w1) \<Rightarrow>
            if io_err \<noteq> 0 then (- 4, buf, w1)
            else
              let tmp = xu_reply a1 [0, 0];
                  len1 = uint (tmp ! 1) * 256 + uint (tmp ! 0)
              in case sys_ioctl K (mFileDesc vc) UVCIOC_CTRL_QUERY
                      (A_xu \<lparr>xu_unit = cbs_xu_unit_id, xu_selector = cbs_xu_control_selector,
                             xu_query = UVC_SET_CUR, xu_size = word_of_int len1,
                             xu_data = buf\<rparr>) w1 of
                   (io_err2, a2, w2) \<Rightarrow>
                     let buf2 = xu_reply a2 buf in
                     if io_err2 \<noteq> 0 then (- 1, buf2, w2)
                     else if readMode = READ_MODE then
                       case sys_ioctl K (mFileDesc vc) UVCIOC_CTRL_QUERY
                              (A_xu \<lparr>xu_unit = cbs_xu_unit_id,
                                     xu_selector = cbs_xu_control_selector,
                                     xu_query = UVC_GET_CUR, xu_size = word_of_int len1,
                                     xu_data = buf2\<rparr>) w2 of
                         (io_err3, a3, w3) \<Rightarrow>
                           if io_err3 \<noteq> 0 then (- 1, xu_reply a3 buf2, w3)
                           else (0, xu_reply a3 buf2, w3)
                     else (0, buf2, w2))"

text \<open>Lines 821-876: the three GPIO commands. Each fills a zeroed array.\<close>

definition linux_cbs_get_gpio_value ::
  "'d kernel \<Rightarrow> VideoCapture \<Rightarrow> int \<Rightarrow> 'd world \<Rightarrow> int \<times> byte \<times> 'd world" where
  "linux_cbs_get_gpio_value K vc gpio_number w =
     (let xu_buf = (replicate 384 0)[0 := XU_TASK_GET, 1 := 0x13, 2 := word_of_int gpio_number]
      in case linux_cbs_VendorControl K vc xu_buf 384 1 w of
           (hr, xu_buf', w') \<Rightarrow> (hr, xu_buf' ! 17, w'))"

definition linux_cbs_set_gpio_value ::
  "'d kernel \<Rightarrow> VideoCapture \<Rightarrow> int \<Rightarrow> byte \<Rightarrow> 'd world \<Rightarrow> int \<times> 'd world" where
  "linux_cbs_set_gpio_value K vc gpio_number val w =
     (let xu_buf = (replicate 64 0)[0 := XU_TASK_SET, 1 := 0x12, 2 := word_of_int gpio_number,
                                    3 := val]
      in case linux_cbs_VendorControl K vc xu_buf 64 0 w of (hr, xu_buf', w') \<Rightarrow> (hr, w'))"

definition linux_cbs_set_gpio_direction ::
  "'d kernel \<Rightarrow> VideoCapture \<Rightarrow> int \<Rightarrow> int \<Rightarrow> 'd world \<Rightarrow> int \<times> 'd world" where
  "linux_cbs_set_gpio_direction K vc gpio_number direction w =
     (let xu_buf = (replicate 64 0)[0 := XU_TASK_SET, 1 := 0x10, 2 := word_of_int gpio_number,
                                    3 := word_of_int direction]
      in case linux_cbs_VendorControl K vc xu_buf 64 0 w of (hr, xu_buf', w') \<Rightarrow> (hr, w'))"

text \<open>Lines 878-891. Both branches set the direction of GPIO 2 to output first.\<close>

definition setLEDValue :: "'d kernel \<Rightarrow> VideoCapture \<Rightarrow> bool \<Rightarrow> 'd world \<Rightarrow> int \<times> 'd world" where
  "setLEDValue K vc display w =
     (if display then
        (case linux_cbs_set_gpio_direction K vc 2 0 w of
           (hr1, w1) \<Rightarrow>
             (case linux_cbs_set_gpio_value K vc 2 1 w1 of (hr2, w2) \<Rightarrow> (0 + hr1 + hr2, w2)))
      else
        (case linux_cbs_set_gpio_direction K vc 2 0 w of
           (hr1, w1) \<Rightarrow>
             (case linux_cbs_set_gpio_value K vc 2 0 w1 of (hr2, w2) \<Rightarrow> (0 + hr1 + hr2, w2))))"

text \<open>
  Lines 893-905. The pointer argument is \<open>None\<close> when null and \<open>Some b\<close> when it
  points to a \<^verbatim>\<open>bool\<close> holding \<open>b\<close>; the value after the call is returned.
\<close>

definition getLEDValue ::
  "'d kernel \<Rightarrow> VideoCapture \<Rightarrow> bool option \<Rightarrow> 'd world \<Rightarrow> int \<times> bool option \<times> 'd world" where
  "getLEDValue K vc val w =
     (if val = None then (- 1, None, w)
      else
        case linux_cbs_set_gpio_direction K vc 2 1 w of
          (hr1, w1) \<Rightarrow>
            (case linux_cbs_get_gpio_value K vc 2 w1 of
               (hr2, v, w2) \<Rightarrow> (hr1 + hr2, Some (v \<noteq> 0), w2)))"

text \<open>
  Lines 907-925. \<^verbatim>\<open>curVal\<close> is an uninitialised local whose address is passed on;
  \<^verbatim>\<open>getLEDValue\<close> stores to it before it is read, so its first content (\<open>False\<close>
  here) is never seen.
\<close>

definition toggleLED ::
  "'d kernel \<Rightarrow> VideoCapture \<Rightarrow> bool option \<Rightarrow> 'd world \<Rightarrow> int \<times> bool option \<times> 'd world" where
  "toggleLED K vc val w =
     (case getLEDValue K vc (Some False) w of
        (ret, curVal, w1) \<Rightarrow>
          if ret = 0 then
            (let newVal = (case curVal of Some c \<Rightarrow> \<not> c | None \<Rightarrow> True)
             in case setLEDValue K vc newVal w1 of
                  (ret2, w2) \<Rightarrow>
                    (ret2, if ret2 = 0 \<and> val \<noteq> None then Some newVal else val, w2))
          else (ret, val, w1))"

text \<open>
  What travels to the device in a request: a \<^verbatim>\<open>UVC_SET_CUR\<close> query whose buffer
  starts with the task code \<^verbatim>\<open>XU_TASK_SET\<close> changes a GPIO line; with sub-command
  \<open>0x12\<close> it writes the value of the line, with \<open>0x10\<close> its direction.
\<close>

definition is_gpio_set :: "byte \<Rightarrow> event \<Rightarrow> bool" where
  "is_gpio_set sub e =
     (case e of
        Ioctl fd code (A_xu q) ret err \<Rightarrow>
          code = UVCIOC_CTRL_QUERY \<and> xu_query q = UVC_SET_CUR
          \<and> take 2 (xu_data q) = [XU_TASK_SET, sub]
      | _ \<Rightarrow> False)"

text \<open>
  A device that takes the first command (it reports a control length of 64 bytes and
  accepts the write) and then stops answering.
\<close>

definition K_two_then_fail :: "nat kernel" where
  "K_two_then_fail =
     \<lparr>k_ioctl = (\<lambda>d fd code arg.
        if d < 2 then
          (0, 0,
           (case arg of
              A_xu q \<Rightarrow>
                if xu_query q = UVC_GET_LEN then A_xu (q\<lparr>xu_data := [0x40, 0]\<rparr>) else arg
            | _ \<Rightarrow> arg),
           Suc d)
        else (- 1, 5, arg, Suc d)),
      k_model = (\<lambda>d n. NONE),
      k_stat = (\<lambda>d n. (- 1, False)),
      k_open = (\<lambda>d n. (- 1, d)),
      k_mmap = (\<lambda>d len fd off. (MAP_FAILED, d)),
      k_read = (\<lambda>d a n. []),
      k_time = (\<lambda>d. (0, 0))\<rparr>"

text \<open>
  Modelled from the spec: an object that was never opened (closed handle, not
  initialised, no buffers, no payload); the initial values of the members are in the
  header. \<open>vc_ready\<close> is the same object with an open handle and initialised.
\<close>

definition frame_empty :: Frame where
  "frame_empty =
     \<lparr>frame_id = 0, frame_timestamp = 0, frame_data = None, frame_width = 0,
      frame_height = 0, frame_channels = 0\<rparr>"

definition vc_closed :: VideoCapture where
  "vc_closed =
     \<lparr>mVerbose = False, mDevId = 0, mCameraModel = NONE, mFileDesc = - 1,
      mInitialized = False, mWidth = 0, mHeight = 0, mChannels = 0, mFps = 0,
      mBuffers = None, mBufCount = 2, mLastFrame = frame_empty, mNewFrame = False,
      mStopCapture = False, mGrabRunning = False, mGrabJoinable = False,
      mCurrentIndex = 0, mStartTs = 0, mInitTs = 0\<rparr>"

definition vc_ready :: VideoCapture where
  "vc_ready = vc_closed\<lparr>mFileDesc := 3, mInitialized := True\<rparr>"

section \<open>Standard controls\<close>

definition LINUX_CTRL_BRIGHTNESS :: int where "LINUX_CTRL_BRIGHTNESS = 9963776"
definition LINUX_CTRL_GAMMA :: int where "LINUX_CTRL_GAMMA = 9963792"
definition DEFAULT_MIN_GAMMA :: int where "DEFAULT_MIN_GAMMA = 1"
definition DEFAULT_MAX_GAMMA :: int where "DEFAULT_MAX_GAMMA = 9"

definition as_queryctrl :: "ioctl_arg \<Rightarrow> v4l2_queryctrl \<Rightarrow> v4l2_queryctrl" where
  "as_queryctrl a old = (case a of A_queryctrl q \<Rightarrow> q | _ \<Rightarrow> old)"

definition as_control :: "ioctl_arg \<Rightarrow> v4l2_control \<Rightarrow> v4l2_control" where
  "as_control a old = (case a of A_control c \<Rightarrow> c | _ \<Rightarrow> old)"

text \<open>The query structure after \<^verbatim>\<open>memset\<close> and the assignment of the id.\<close>

definition queryctrl_for :: "int \<Rightarrow> v4l2_queryctrl" where
  "queryctrl_for ctrl_id =
     \<lparr>qc_id = word_of_int ctrl_id, qc_minimum = 0, qc_maximum = 0, qc_step = 0,
      qc_default_value = 0\<rparr>"

text \<open>Lines 927-946.\<close>

definition getCameraControlSettings ::
  "'d kernel \<Rightarrow> VideoCapture \<Rightarrow> int \<Rightarrow> 'd world \<Rightarrow> int \<times> 'd world" where
  "getCameraControlSettings K vc ctrl_id w =
     (case sys_ioctl K (mFileDesc vc) VIDIOC_QUERYCTRL (A_queryctrl (queryctrl_for ctrl_id)) w of
        (r, a1, w1) \<Rightarrow>
          if 0 \<noteq> r then (- 1, w1)
          else
            let control_s = \<lparr>ctl_id = word_of_int ctrl_id, ctl_value = 0\<rparr>
            in case sys_ioctl K (mFileDesc vc) VIDIOC_G_CTRL (A_control control_s) w1 of
                 (r2, a2, w2) \<Rightarrow>
                   if r2 = 0 then (ctl_value (as_control a2 control_s), w2) else (- 1, w2))"

text \<open>
  Lines 948-987. The function returns nothing; the model returns the world, whose
  trace shows whether \<^verbatim>\<open>VIDIOC_S_CTRL\<close> was issued.
\<close>

definition setCameraControlSettings ::
  "'d kernel \<Rightarrow> VideoCapture \<Rightarrow> int \<Rightarrow> int \<Rightarrow> 'd world \<Rightarrow> 'd world" where
  "setCameraControlSettings K vc ctrl_id ctrl_val w =
     (case sys_ioctl K (mFileDesc vc) VIDIOC_QUERYCTRL (A_queryctrl (queryctrl_for ctrl_id)) w of
        (res, a1, w1) \<Rightarrow>
          let queryctrl = as_queryctrl a1 (queryctrl_for ctrl_id);
              range =
                (if 0 = res then
                   (if ctrl_id = LINUX_CTRL_GAMMA then (DEFAULT_MIN_GAMMA, DEFAULT_MAX_GAMMA)
                    else (qc_minimum queryctrl, qc_maximum queryctrl))
                 else (0, 6500))
          in if ctrl_val \<ge> fst range \<and> ctrl_val \<le> snd range then
               (case sys_ioctl K (mFileDesc vc) VIDIOC_S_CTRL
                       (A_control \<lparr>ctl_id = word_of_int ctrl_id, ctl_value = ctrl_val\<rparr>) w1 of
                  (r2, a2, w2) \<Rightarrow> w2)
             else w1)"

text \<open>Lines 989-1005.\<close>

definition resetCameraControlSettings ::
  "'d kernel \<Rightarrow> VideoCapture \<Rightarrow> int \<Rightarrow> 'd world \<Rightarrow> 'd world" where
  "resetCameraControlSettings K vc ctrl_id w =
     (case sys_ioctl K (mFileDesc vc) VIDIOC_QUERYCTRL (A_queryctrl (queryctrl_for ctrl_id)) w of
        (r, a1, w1) \<Rightarrow>
          let val_def = qc_default_value (as_queryctrl a1 (queryctrl_for ctrl_id))
          in case sys_ioctl K (mFileDesc vc) VIDIOC_S_CTRL
                    (A_control \<lparr>ctl_id = word_of_int ctrl_id, ctl_value = val_def\<rparr>) w1 of
               (r2, a2, w2) \<Rightarrow> w2)"

text \<open>
  The range a requested value is checked against, given the return value of the range
  query and the structure it left: the queried range, \<open>[1, 9]\<close> for the gamma control,
  and \<open>[0, 6500]\<close> for every control when the query failed.
\<close>

definition effective_range :: "int \<Rightarrow> int \<Rightarrow> v4l2_queryctrl \<Rightarrow> int \<times> int" where
  "effective_range ctrl_id res q =
     (if res \<noteq> 0 then (0, 6500)
      else if ctrl_id = LINUX_CTRL_GAMMA then (1, 9)
      else (qc_minimum q, qc_maximum q))"

text \<open>
  Two devices for the controls: one that rejects the range query and accepts writes,
  and one that reports the range \<open>[0, 100]\<close> with default 50 for every control.
\<close>

definition K_no_query :: "unit kernel" where
  "K_no_query =
     \<lparr>k_ioctl = (\<lambda>d fd code arg. if code = VIDIOC_QUERYCTRL then (- 1, 22, arg, d) else (0, 0, arg, d)),
      k_model = (\<lambda>d n. NONE),
      k_stat = (\<lambda>d n. (- 1, False)),
      k_open = (\<lambda>d n. (- 1, d)),
      k_mmap = (\<lambda>d len fd off. (MAP_FAILED, d)),
      k_read = (\<lambda>d a n. []),
      k_time = (\<lambda>d. (0, 0))\<rparr>"

definition K_percent :: "unit kernel" where
  "K_percent =
     \<lparr>k_ioctl = (\<lambda>d fd code arg.
        case arg of
          A_queryctrl q \<Rightarrow>
            (0, 0, A_queryctrl (q\<lparr>qc_minimum := 0, qc_maximum := 100, qc_step := 1,
                                   qc_default_value := 50\<rparr>), d)
        | _ \<Rightarrow> (0, 0, arg, d)),
      k_model = (\<lambda>d n. NONE),
      k_stat = (\<lambda>d n. (- 1, False)),
      k_open = (\<lambda>d n. (- 1, d)),
      k_mmap = (\<lambda>d len fd off. (MAP_FAILED, d)),
      k_read = (\<lambda>d a n. []),
      k_time = (\<lambda>d. (0, 0))\<rparr>"

section \<open>The consumer side: \<^verbatim>\<open>getLastFrame\<close>\<close>

text \<open>
  Lines 683-701. The flag \<^verbatim>\<open>mNewFrame\<close> is set by the capture thread while the
  caller polls. \<open>seen k\<close> is the value the caller reads the \<open>k\<close>-th time, after \<open>k\<close>
  sleeps of 100 microseconds. \<^verbatim>\<open>time_count\<close> is a 64-bit unsigned counter which is
  decremented before it is compared with 0. The result says whether the flag was seen
  set, and how many times the caller slept.
\<close>

function wait_new_frame :: "(nat \<Rightarrow> bool) \<Rightarrow> u64 \<Rightarrow> nat \<Rightarrow> bool \<times> nat" where
  "wait_new_frame seen time_count k =
     (if seen k then (True, k)
      else if time_count - 1 = 0 then (False, k)
      else wait_new_frame seen (time_count - 1) (Suc k))"
  by pat_completeness auto
termination
proof (relation "measure (\<lambda>(seen, time_count, k). unat (time_count - 1))")
  show "wf (measure (\<lambda>(seen, time_count, k). unat (time_count - 1)))"
    by simp
next
  fix seen :: "nat \<Rightarrow> bool" and time_count :: u64 and k :: nat
  assume nz: "time_count - 1 \<noteq> 0"
  have "unat (time_count - 1 - 1) = unat (time_count - 1) - 1"
    using nz by (rule unat_minus_one)
  moreover have "0 < unat (time_count - 1)"
    by (rule unat_gt_0 [THEN iffD2, OF nz])
  ultimately have "unat (time_count - 1 - 1) < unat (time_count - 1)"
    by linarith
  then show "((seen, time_count - 1, Suc k), (seen, time_count, k))
               \<in> measure (\<lambda>(seen, time_count, k). unat (time_count - 1))"
    by simp
qed

declare wait_new_frame.simps [simp del]

text \<open>
  \<open>arrives k\<close> tells whether the capture thread has stored a frame by the caller's
  \<open>k\<close>-th look at the flag. The result is the pointer returned (\<open>None\<close> when null),
  the object, and the number of sleeps.
\<close>

definition getLastFrame ::
  "(nat \<Rightarrow> bool) \<Rightarrow> VideoCapture \<Rightarrow> u64 \<Rightarrow> Frame option \<times> VideoCapture \<times> nat" where
  "getLastFrame arrives vc timeout_msec =
     (case wait_new_frame (\<lambda>k. mNewFrame vc \<or> arrives k) (timeout_msec * 10) 0 of
        (got, sleeps) \<Rightarrow>
          if got then (Some (mLastFrame vc), vc\<lparr>mNewFrame := False\<rparr>, sleeps)
          else (None, vc, sleeps))"

section \<open>Opening, starting and closing the device\<close>

text \<open>
  What C++ leaves undefined, or answers by ending the process, is a result of its own in
  the model: a division by zero, an array index past the end, a null pointer followed, an
  signed product that overflows, an allocation of negative size, a copy past the end of
  its destination, a read from an address that is not mapped.
\<close>

datatype fault =
  DivisionByZero | SignedOverflow | OutOfBounds | NullPointer | BadAlloc | HeapOverrun | BadAddress

text \<open>
  The products the source computes in \<^verbatim>\<open>int\<close> are 32-bit signed; a result outside
  that range is undefined in C++ and a fault here.
\<close>

definition int_fits :: "int \<Rightarrow> bool" where
  "int_fits x = (- 2147483648 \<le> x \<and> x \<le> 2147483647)"

definition V4L2_BUF_TYPE_VIDEO_CAPTURE :: u32 where "V4L2_BUF_TYPE_VIDEO_CAPTURE = 1"
definition V4L2_MEMORY_MMAP :: u32 where "V4L2_MEMORY_MMAP = 1"
definition V4L2_PIX_FMT_YUYV :: u32 where "V4L2_PIX_FMT_YUYV = 0x56595559"
definition V4L2_FIELD_ANY :: u32 where "V4L2_FIELD_ANY = 0"
definition V4L2_BUF_FLAG_TIMESTAMP_MONOTONIC :: u32 where "V4L2_BUF_FLAG_TIMESTAMP_MONOTONIC = 0x2000"
definition V4L2_CAP_TIMEPERFRAME :: u32 where "V4L2_CAP_TIMEPERFRAME = 0x1000"
definition V4L2_PRIORITY_RECORD :: int where "V4L2_PRIORITY_RECORD = 3"

definition as_format :: "ioctl_arg \<Rightarrow> v4l2_format \<Rightarrow> v4l2_format" where
  "as_format a old = (case a of A_format f \<Rightarrow> f | _ \<Rightarrow> old)"

definition as_requestbuffers :: "ioctl_arg \<Rightarrow> v4l2_requestbuffers \<Rightarrow> v4l2_requestbuffers" where
  "as_requestbuffers a old = (case a of A_requestbuffers r \<Rightarrow> r | _ \<Rightarrow> old)"

definition as_buffer :: "ioctl_arg \<Rightarrow> v4l2_buffer \<Rightarrow> v4l2_buffer" where
  "as_buffer a old = (case a of A_buffer b \<Rightarrow> b | _ \<Rightarrow> old)"

definition sys_open :: "'d kernel \<Rightarrow> nat \<Rightarrow> 'd world \<Rightarrow> int \<times> 'd world" where
  "sys_open K devId w =
     (case k_open K (dev w) devId of
        (fd, d') \<Rightarrow> (fd, w\<lparr>dev := d', trace := trace w @ [Open devId fd]\<rparr>))"

definition sys_close :: "int \<Rightarrow> 'd world \<Rightarrow> 'd world" where
  "sys_close fd w = w\<lparr>trace := trace w @ [Close fd]\<rparr>"

text \<open>A mapping that succeeds is live until it is unmapped with its address and length.\<close>

definition sys_mmap :: "'d kernel \<Rightarrow> nat \<Rightarrow> int \<Rightarrow> u32 \<Rightarrow> 'd world \<Rightarrow> int \<times> 'd world" where
  "sys_mmap K len fd off w =
     (case k_mmap K (dev w) len fd off of
        (a, d') \<Rightarrow>
          (a, w\<lparr>dev := d', trace := trace w @ [Mmap len fd off a],
                mappings := (if a = MAP_FAILED then mappings w else mappings w @ [(a, len)])\<rparr>))"

definition sys_munmap :: "int \<Rightarrow> nat \<Rightarrow> 'd world \<Rightarrow> 'd world" where
  "sys_munmap a len w =
     w\<lparr>trace := trace w @ [Munmap a len], mappings := removeAll (a, len) (mappings w)\<rparr>"

text \<open>Lines 83-84: the loop over the first \<^verbatim>\<open>mBufCount\<close> elements of the array.\<close>

fun munmap_buffers :: "Buffer list \<Rightarrow> nat list \<Rightarrow> 'd world \<Rightarrow> fault + 'd world" where
  "munmap_buffers bs [] w = Inr w"
| "munmap_buffers bs (i # js) w =
     (if i < length bs
      then munmap_buffers bs js (sys_munmap (buf_start (bs ! i)) (buf_length (bs ! i)) w)
      else Inl OutOfBounds)"

text \<open>
  Lines 63-111. Joining the capture thread is modelled by its end (the thread clears
  \<^verbatim>\<open>mGrabRunning\<close> when it leaves its loop); what the thread did before is the
  business of \<open>grab_iteration\<close> below.
\<close>

definition reset :: "'d kernel \<Rightarrow> VideoCapture \<Rightarrow> 'd world \<Rightarrow> fault + VideoCapture \<times> 'd world" where
  "reset K vc w =
     (case setLEDValue K vc False w of
        (hr, w1) \<Rightarrow>
          let vc1 = vc\<lparr>mStopCapture := True\<rparr>;
              vc2 = (if mGrabJoinable vc1
                     then vc1\<lparr>mGrabJoinable := False, mGrabRunning := False\<rparr> else vc1);
              w2 = (if mFileDesc vc2 \<noteq> - 1
                    then snd (snd (xioctl K (mFileDesc vc2) VIDIOC_STREAMOFF
                                     (A_type V4L2_BUF_TYPE_VIDEO_CAPTURE) w1))
                    else w1)
          in case (case mBuffers vc2 of
                     None \<Rightarrow> Inr (vc2, w2)
                   | Some bs \<Rightarrow>
                       if mInitialized vc2 then
                         (case munmap_buffers bs [0..<mBufCount vc2] w2 of
                            Inl f \<Rightarrow> Inl f
                          | Inr w3 \<Rightarrow> Inr (vc2\<lparr>mBuffers := None\<rparr>, w3))
                       else Inr (vc2, w2)) of
               Inl f \<Rightarrow> Inl f
             | Inr (vc3, w3) \<Rightarrow>
                 let vc4 = (if mFileDesc vc3 \<noteq> 0 then vc3\<lparr>mFileDesc := - 1\<rparr> else vc3);
                     w4 = (if mFileDesc vc3 \<noteq> 0 then sys_close (mFileDesc vc3) w3 else w3);
                     vc5 = (if frame_data (mLastFrame vc4) \<noteq> None
                            then vc4\<lparr>mLastFrame := (mLastFrame vc4)\<lparr>frame_data := None\<rparr>\<rparr>
                            else vc4)
                 in Inr (vc5\<lparr>mInitialized := False\<rparr>, w4))"

text \<open>Lines 501-511.\<close>

definition input_set_framerate ::
  "'d kernel \<Rightarrow> VideoCapture \<Rightarrow> int \<Rightarrow> 'd world \<Rightarrow> int \<times> 'd world" where
  "input_set_framerate K vc fps w =
     (case xioctl K (mFileDesc vc) VIDIOC_S_PARM
             (A_streamparm \<lparr>sp_type = V4L2_BUF_TYPE_VIDEO_CAPTURE,
                             sp_capturemode = V4L2_CAP_TIMEPERFRAME, sp_numerator = 1,
                             sp_denominator = word_of_int fps\<rparr>) w of
        (r, a, w') \<Rightarrow> (r, w'))"

text \<open>
  Lines 408-436: the loop that queries and maps the buffers, with \<^verbatim>\<open>mBufCount\<close> as
  its counter. The array was allocated with \<open>count\<close> elements just before, so the
  index is within it. \<open>querybuf_request i\<close> is the zeroed structure with the type,
  memory, index and flags the source sets for buffer \<open>i\<close>.
\<close>

definition querybuf_request :: "nat \<Rightarrow> v4l2_buffer" where
  "querybuf_request i =
     \<lparr>vb_index = of_nat i, vb_type = V4L2_BUF_TYPE_VIDEO_CAPTURE, vb_bytesused = 0,
      vb_flags = V4L2_BUF_FLAG_TIMESTAMP_MONOTONIC, vb_tv_sec = 0, vb_tv_usec = 0,
      vb_memory = V4L2_MEMORY_MMAP, vb_offset = 0, vb_length = 0\<rparr>"

function map_buffers ::
  "'d kernel \<Rightarrow> nat \<Rightarrow> VideoCapture \<Rightarrow> 'd world \<Rightarrow> bool \<times> VideoCapture \<times> 'd world" where
  "map_buffers K count vc w =
     (if mBufCount vc < count then
        (let buf0 = querybuf_request (mBufCount vc)
         in case xioctl K (mFileDesc vc) VIDIOC_QUERYBUF (A_buffer buf0) w of
              (r, a, w1) \<Rightarrow>
                if r = - 1 then (False, vc, w1)
                else
                  (let buf = as_buffer a buf0 in
                   case sys_mmap K (unat (vb_length buf)) (mFileDesc vc) (vb_offset buf) w1 of
                     (addr, w2) \<Rightarrow>
                       map_buffers K count
                         (vc\<lparr>mBuffers :=
                               map_option
                                 (\<lambda>bs. bs[mBufCount vc :=
                                            \<lparr>buf_start = addr,
                                             buf_length = unat (vb_length buf)\<rparr>])
                                 (mBuffers vc),
                             mBufCount := Suc (mBufCount vc)\<rparr>) w2))
      else (True, vc, w))"
  by pat_completeness auto
termination
  by (relation "measure (\<lambda>(K, count, vc, w). count - mBufCount vc)") auto

declare map_buffers.simps [simp del]

text \<open>
  Lines 405-441. \<^verbatim>\<open>calloc\<close> is taken to succeed; it gives an array of zeroed
  elements.
\<close>

definition openCamera_buffers ::
  "'d kernel \<Rightarrow> VideoCapture \<Rightarrow> v4l2_requestbuffers \<Rightarrow> 'd world \<Rightarrow> bool \<times> VideoCapture \<times> 'd world" where
  "openCamera_buffers K vc req w =
     (let vc1 = vc\<lparr>mBuffers := Some (replicate (unat (rb_count req))
                                       \<lparr>buf_start = 0, buf_length = 0\<rparr>),
                   mBufCount := 0\<rparr>
      in case map_buffers K (unat (rb_count req)) vc1 w of
           (ok, vc2, w2) \<Rightarrow>
             if ok then (True, vc2\<lparr>mBufCount := unat (rb_count req)\<rparr>, w2)
             else (False, vc2, w2))"

text \<open>
  Lines 356-403, from the format the device answered with. \<^verbatim>\<open>mWidth\<close> is an
  \<^verbatim>\<open>int\<close> and \<^verbatim>\<open>bytesperline\<close> unsigned, so the division is the unsigned one,
  and it comes before the comparison with the requested size. \<^verbatim>\<open>bufSize\<close> is an
  \<^verbatim>\<open>int\<close>, the product of three integers taken from left to right. \<^verbatim>\<open>new\<close> is
  taken to succeed for a size that is not negative; the payload it gives is not
  initialised, and the model fills it with zeros.
\<close>

definition openCamera_negotiated ::
  "'d kernel \<Rightarrow> VideoCapture \<Rightarrow> int \<Rightarrow> int \<Rightarrow> v4l2_format \<Rightarrow> 'd world
     \<Rightarrow> fault + bool \<times> VideoCapture \<times> 'd world" where
  "openCamera_negotiated K vc width_tmp height_tmp fmt w =
     (let vc1 = vc\<lparr>mWidth := sint (pix_width fmt), mHeight := sint (pix_height fmt)\<rparr> in
      if (word_of_int (mWidth vc1) :: u32) = 0 then Inl DivisionByZero
      else
        let vc2 = vc1\<lparr>mChannels :=
                        sint (pix_bytesperline fmt div (word_of_int (mWidth vc1) :: u32))\<rparr>
        in if mWidth vc2 \<noteq> width_tmp \<or> mHeight vc2 \<noteq> height_tmp then Inr (False, vc2, w)
           else
             case input_set_framerate K vc2 (mFps vc2) w of
               (r, w1) \<Rightarrow>
                 let fr = (mLastFrame vc2)\<lparr>frame_width := mWidth vc2,
                                            frame_height := mHeight vc2,
                                            frame_channels := mChannels vc2\<rparr>;
                     bufSize = frame_width fr * frame_height fr * frame_channels fr
                 in if \<not> (int_fits (frame_width fr * frame_height fr) \<and> int_fits bufSize)
                    then Inl SignedOverflow
                    else if bufSize < 0 then Inl BadAlloc
                    else
                      let vc3 = vc2\<lparr>mLastFrame :=
                                      fr\<lparr>frame_data := Some (replicate (nat bufSize) 0)\<rparr>,
                                    mStartTs := fst (k_time K (dev w1)),
                                    mInitTs := snd (k_time K (dev w1))\<rparr>;
                          req = \<lparr>rb_count = of_nat (mBufCount vc3),
                                 rb_type = V4L2_BUF_TYPE_VIDEO_CAPTURE,
                                 rb_memory = V4L2_MEMORY_MMAP\<rparr>
                      in case xioctl K (mFileDesc vc3) VIDIOC_REQBUFS (A_requestbuffers req) w1 of
                           (r4, a4, w2) \<Rightarrow>
                             if r4 = - 1 then Inr (False, vc3, w2)
                             else Inr (openCamera_buffers K vc3 (as_requestbuffers a4 req) w2))"

text \<open>
  Lines 226-354, up to the answer to \<^verbatim>\<open>VIDIOC_S_FMT\<close>. The two early returns after
  \<^verbatim>\<open>stat\<close> are inside \<^verbatim>\<open>if(mVerbose)\<close> in the source. When \<^verbatim>\<open>stat\<close> fails the
  zeroed structure is not a character device. The crop rectangle read after
  \<^verbatim>\<open>VIDIOC_CROPCAP\<close> is never used. The product \<^verbatim>\<open>mWidth * mHeight\<close> of line
  334 is an \<^verbatim>\<open>int\<close>.
\<close>

definition openCamera ::
  "'d kernel \<Rightarrow> nat \<Rightarrow> VideoCapture \<Rightarrow> 'd world \<Rightarrow> fault + bool \<times> VideoCapture \<times> 'd world" where
  "openCamera K devId vc w =
     (let vc1 = vc\<lparr>mDevId := devId, mCameraModel := k_model K (dev w) devId\<rparr> in
      if mCameraModel vc1 = NONE then Inr (False, vc1, w)
      else if mCameraModel vc1 = ZED \<or> mCameraModel vc1 = ZED_M then Inr (False, vc1, w)
      else
        case k_stat K (dev w) devId of
          (st_ret, is_chr) \<Rightarrow>
            if st_ret = - 1 \<and> mVerbose vc1 then Inr (False, vc1, w)
            else if \<not> (st_ret \<noteq> - 1 \<and> is_chr) \<and> mVerbose vc1 then Inr (False, vc1, w)
            else
              case sys_open K devId w of
                (fd, w1) \<Rightarrow>
                  let vc2 = vc1\<lparr>mFileDesc := fd\<rparr> in
                  if - 1 = fd then Inr (False, vc2, w1)
                  else
                    case xioctl K fd VIDIOC_QUERYCAP A_capability w1 of
                      (r1, a1, w2) \<Rightarrow>
                        if r1 = - 1 then Inr (False, vc2, w2)
                        else
                          case xioctl K fd VIDIOC_CROPCAP
                                 (A_cropcap V4L2_BUF_TYPE_VIDEO_CAPTURE) w2 of
                            (r2, a2, w3) \<Rightarrow>
                              if \<not> int_fits (mWidth vc2 * mHeight vc2) then Inl SignedOverflow
                              else
                              let fmt0 =
                                    \<lparr>fmt_type = V4L2_BUF_TYPE_VIDEO_CAPTURE,
                                     pix_width = (if mWidth vc2 * mHeight vc2 \<noteq> 0
                                                  then word_of_int (mWidth vc2) else 0),
                                     pix_height = (if mWidth vc2 * mHeight vc2 \<noteq> 0
                                                   then word_of_int (mHeight vc2) else 0),
                                     pix_pixelformat = V4L2_PIX_FMT_YUYV,
                                     pix_field = V4L2_FIELD_ANY, pix_bytesperline = 0\<rparr>;
                                  width_tmp = mWidth vc2;
                                  height_tmp = mHeight vc2
                              in case xioctl K fd VIDIOC_S_FMT (A_format fmt0) w3 of
                                   (r3, a3, w4) \<Rightarrow>
                                     if r3 = - 1 then Inr (False, vc2, w4)
                                     else openCamera_negotiated K vc2 width_tmp height_tmp
                                            (as_format a3 fmt0) w4)"

text \<open>Lines 448-465: queueing the buffers.\<close>

fun queue_buffers :: "'d kernel \<Rightarrow> int \<Rightarrow> nat list \<Rightarrow> 'd world \<Rightarrow> bool \<times> 'd world" where
  "queue_buffers K fd [] w = (True, w)"
| "queue_buffers K fd (i # js) w =
     (case xioctl K fd VIDIOC_QBUF
             (A_buffer \<lparr>vb_index = of_nat i, vb_type = V4L2_BUF_TYPE_VIDEO_CAPTURE,
                        vb_bytesused = 0, vb_flags = 0, vb_tv_sec = 0, vb_tv_usec = 0,
                        vb_memory = V4L2_MEMORY_MMAP, vb_offset = 0, vb_length = 0\<rparr>) w of
        (r, a, w1) \<Rightarrow> if r = - 1 then (False, w1) else queue_buffers K fd js w1)"

text \<open>Lines 444-499. Starting the thread makes it joinable.\<close>

definition startCapture ::
  "'d kernel \<Rightarrow> VideoCapture \<Rightarrow> 'd world \<Rightarrow> bool \<times> VideoCapture \<times> 'd world" where
  "startCapture K vc w =
     (case queue_buffers K (mFileDesc vc) [0..<mBufCount vc] w of
        (queued, w1) \<Rightarrow>
          if \<not> queued then (False, vc, w1)
          else
            case xioctl K (mFileDesc vc) VIDIOC_G_PRIORITY (A_priority V4L2_PRIORITY_RECORD) w1 of
              (r1, a1, w2) \<Rightarrow>
                if r1 = - 1 then (False, vc, w2)
                else
                  case xioctl K (mFileDesc vc) VIDIOC_STREAMON
                         (A_type V4L2_BUF_TYPE_VIDEO_CAPTURE) w2 of
                    (r2, a2, w3) \<Rightarrow>
                      if r2 = - 1 then (False, vc, w3)
                      else (True, vc\<lparr>mGrabJoinable := True\<rparr>, w3))"

text \<open>Lines 197-201: the scan over the device nodes, until the first that opens.\<close>

fun open_first ::
  "'d kernel \<Rightarrow> nat list \<Rightarrow> VideoCapture \<Rightarrow> 'd world \<Rightarrow> fault + bool \<times> VideoCapture \<times> 'd world" where
  "open_first K [] vc w = Inr (False, vc, w)"
| "open_first K (i # js) vc w =
     (case openCamera K i vc w of
        Inl f \<Rightarrow> Inl f
      | Inr (opened, vc1, w1) \<Rightarrow>
          if opened then Inr (True, vc1, w1) else open_first K js vc1 w1)"

text \<open>Lines 188-224. An explicit id is cast to \<^verbatim>\<open>uint8_t\<close>.\<close>

definition init ::
  "'d kernel \<Rightarrow> int \<Rightarrow> VideoCapture \<Rightarrow> 'd world \<Rightarrow> fault + bool \<times> VideoCapture \<times> 'd world" where
  "init K devId vc w =
     (case reset K vc w of
        Inl f \<Rightarrow> Inl f
      | Inr (vc1, w1) \<Rightarrow>
          (case (if devId = - 1 then open_first K [0..<64] vc1 w1
                 else openCamera K (nat (devId mod 256)) vc1 w1) of
             Inl f \<Rightarrow> Inl f
           | Inr (opened, vc2, w2) \<Rightarrow>
               if \<not> opened then Inr (False, vc2, w2)
               else
                 case startCapture K vc2 w2 of
                   (started, vc3, w3) \<Rightarrow>
                     let vc4 = vc3\<lparr>mInitialized := started\<rparr> in
                     case setLEDValue K vc4 True w3 of
                       (hr, w4) \<Rightarrow> Inr (mInitialized vc4, vc4, w4)))"

section \<open>The capture loop\<close>

text \<open>
  The bytes of a mapped buffer, when the whole of it is a live mapping; and
  \<^verbatim>\<open>memcpy\<close> of \<open>n\<close> bytes from there into the payload.
\<close>

definition mapped_bytes :: "'d kernel \<Rightarrow> 'd world \<Rightarrow> int \<Rightarrow> nat \<Rightarrow> byte list option" where
  "mapped_bytes K w a n =
     (if (a, n) \<in> set (mappings w)
      then Some (take n (k_read K (dev w) a n @ replicate n 0)) else None)"

definition memcpy :: "byte list \<Rightarrow> byte list option \<Rightarrow> nat \<Rightarrow> fault + byte list" where
  "memcpy dst src n =
     (case src of
        None \<Rightarrow> Inl BadAddress
      | Some s \<Rightarrow> if n \<le> length dst then Inr (take n s @ drop n dst) else Inl HeapOverrun)"

text \<open>Lines 651-657: the copy into the shared frame, with its guard.\<close>

definition store_frame ::
  "'d kernel \<Rightarrow> VideoCapture \<Rightarrow> u64 \<Rightarrow> 'd world \<Rightarrow> fault + VideoCapture" where
  "store_frame K vc current_ts w =
     (case frame_data (mLastFrame vc) of
        None \<Rightarrow> Inr vc
      | Some payload \<Rightarrow>
          if mWidth vc \<noteq> 0 \<and> mHeight vc \<noteq> 0 then
            (case mBuffers vc of
               None \<Rightarrow> Inl NullPointer
             | Some bs \<Rightarrow>
                 if mCurrentIndex vc < length bs then
                   (let b = bs ! mCurrentIndex vc in
                    if buf_start b \<noteq> 0 then
                      (case memcpy payload (mapped_bytes K w (buf_start b) (buf_length b))
                              (buf_length b) of
                         Inl f \<Rightarrow> Inl f
                       | Inr payload' \<Rightarrow>
                           Inr (vc\<lparr>mLastFrame :=
                                     (mLastFrame vc)\<lparr>frame_id := frame_id (mLastFrame vc) + 1,
                                                      frame_timestamp := current_ts,
                                                      frame_data := Some payload'\<rparr>,
                                   mNewFrame := True\<rparr>))
                    else Inr vc)
                 else Inl OutOfBounds)
          else Inr vc)"

text \<open>
  Lines 633-677: one turn of the loop of \<^verbatim>\<open>grabThreadFunc\<close>. The local \<^verbatim>\<open>buf\<close> lives
  across the turns and is passed along. The mutexes and the sleep are left out.
\<close>

definition grab_iteration ::
  "'d kernel \<Rightarrow> VideoCapture \<Rightarrow> v4l2_buffer \<Rightarrow> 'd world
     \<Rightarrow> fault + VideoCapture \<times> v4l2_buffer \<times> 'd world" where
  "grab_iteration K vc buf w =
     (let vc1 = vc\<lparr>mGrabRunning := True\<rparr> in
      case sys_ioctl K (mFileDesc vc1) VIDIOC_DQBUF (A_buffer buf) w of
        (ret, a, w1) \<Rightarrow>
          let buf1 = as_buffer a buf in
          if vb_bytesused buf1 = vb_length buf1 \<and> ret = 0 \<and> unat (vb_index buf1) < mBufCount vc1
          then
            (let vc2 = vc1\<lparr>mCurrentIndex := unat (vb_index buf1)\<rparr>;
                 current_ts = ((vb_tv_sec buf1 * (1000 * 1000) + vb_tv_usec buf1) - mInitTs vc2) * 1000;
                 vc3 = vc2\<lparr>mLastFrame :=
                              (mLastFrame vc2)\<lparr>frame_timestamp := mStartTs vc2 + current_ts\<rparr>\<rparr>
             in case store_frame K vc3 current_ts w1 of
                  Inl f \<Rightarrow> Inl f
                | Inr vc4 \<Rightarrow>
                    (case sys_ioctl K (mFileDesc vc4) VIDIOC_QBUF (A_buffer buf1) w1 of
                       (r2, a2, w2) \<Rightarrow> Inr (vc4, as_buffer a2 buf1, w2)))
          else
            (if vb_bytesused buf1 \<noteq> vb_length buf1 then
               (case sys_ioctl K (mFileDesc vc1) VIDIOC_QBUF (A_buffer buf1) w1 of
                  (r2, a2, w2) \<Rightarrow>
                    Inr (vc1, (as_buffer a2 buf1)\<lparr>vb_bytesused := - 1, vb_length := 0\<rparr>, w2))
             else Inr (vc1, buf1\<lparr>vb_bytesused := - 1, vb_length := 0\<rparr>, w1)))"

text \<open>
  A camera for the examples. It answers \<^verbatim>\<open>VIDIOC_S_FMT\<close> with the width \<open>wrep\<close>,
  the height asked for and two bytes per pixel of the width asked for; grants two
  buffers; describes the first \<open>good\<close> of them as \<open>len\<close> bytes long and fails with
  \<^verbatim>\<open>EINVAL\<close> for the others; hands out buffer 0, full, on every dequeue; and does
  not answer vendor commands.
\<close>

definition K_cam :: "u32 \<Rightarrow> nat \<Rightarrow> nat \<Rightarrow> unit kernel" where
  "K_cam wrep good len =
     \<lparr>k_ioctl = (\<lambda>d fd code arg.
        case arg of
          A_format f \<Rightarrow>
            (0, 0, A_format (f\<lparr>pix_width := wrep, pix_bytesperline := 2 * pix_width f\<rparr>), d)
        | A_requestbuffers rq \<Rightarrow> (0, 0, A_requestbuffers (rq\<lparr>rb_count := 2\<rparr>), d)
        | A_buffer b \<Rightarrow>
            if code = VIDIOC_QUERYBUF then
              (if unat (vb_index b) < good
               then (0, 0, A_buffer (b\<lparr>vb_length := of_nat len,
                                        vb_offset := vb_index b * of_nat len\<rparr>), d)
               else (- 1, 22, arg, d))
            else if code = VIDIOC_DQBUF then
              (0, 0, A_buffer (b\<lparr>vb_index := 0, vb_bytesused := of_nat len,
                                  vb_length := of_nat len\<rparr>), d)
            else (0, 0, arg, d)
        | A_xu q \<Rightarrow> (- 1, 5, arg, d)
        | _ \<Rightarrow> (0, 0, arg, d)),
      k_model = (\<lambda>d n. ZED_2_CBS),
      k_stat = (\<lambda>d n. (0, True)),
      k_open = (\<lambda>d n. (3, d)),
      k_mmap = (\<lambda>d len fd off. (4096 + uint off, d)),
      k_read = (\<lambda>d a n. replicate n 0xAB),
      k_time = (\<lambda>d. (0, 0))\<rparr>"

text \<open>An object that was never opened, asked for 8 by 2 pixels.\<close>

definition vc_small :: VideoCapture where
  "vc_small = vc_closed\<lparr>mWidth := 8, mHeight := 2, mFps := 15\<rparr>"

text \<open>
  The states the examples pass through: the format the camera answers with, the object
  and the world once the two buffers of 64 bytes are mapped, the object once capture has
  started, a world with these two mappings, and the buffer structure of the first turn
  of the capture loop.
\<close>

definition fmt_small :: v4l2_format where
  "fmt_small =
     \<lparr>fmt_type = 1, pix_width = 8, pix_height = 2, pix_pixelformat = 0x56595559,
      pix_field = 0, pix_bytesperline = 16\<rparr>"

definition vc_mapped :: VideoCapture where
  "vc_mapped =
     vc_small\<lparr>mFileDesc := 3, mChannels := 2,
              mBuffers := Some [\<lparr>buf_start = 4096, buf_length = 64\<rparr>,
                                \<lparr>buf_start = 4160, buf_length = 64\<rparr>],
              mLastFrame := frame_empty\<lparr>frame_data := Some (replicate 32 0), frame_width := 8,
                                        frame_height := 2, frame_channels := 2\<rparr>\<rparr>"

definition w_mapped :: "unit world" where
  "w_mapped =
     \<lparr>dev = (), errno = 0,
      trace =
        [Ioctl 3 VIDIOC_S_PARM
           (A_streamparm \<lparr>sp_type = 1, sp_capturemode = 4096, sp_numerator = 1,
                           sp_denominator = 15\<rparr>) 0 0,
         Ioctl 3 VIDIOC_REQBUFS
           (A_requestbuffers \<lparr>rb_count = 2, rb_type = 1, rb_memory = 1\<rparr>) 0 0,
         Ioctl 3 VIDIOC_QUERYBUF
           (A_buffer \<lparr>vb_index = 0, vb_type = 1, vb_bytesused = 0, vb_flags = 8192,
                      vb_tv_sec = 0, vb_tv_usec = 0, vb_memory = 1, vb_offset = 0,
                      vb_length = 0\<rparr>) 0 0,
         Mmap 64 3 0 4096,
         Ioctl 3 VIDIOC_QUERYBUF
           (A_buffer \<lparr>vb_index = 1, vb_type = 1, vb_bytesused = 0, vb_flags = 8192,
                      vb_tv_sec = 0, vb_tv_usec = 0, vb_memory = 1, vb_offset = 0,
                      vb_length = 0\<rparr>) 0 0,
         Mmap 64 3 64 4160],
      mappings = [(4096, 64), (4160, 64)]\<rparr>"

definition vc_streaming :: VideoCapture where
  "vc_streaming =
     vc_mapped\<lparr>mCameraModel := ZED_2_CBS, mInitialized := True, mStopCapture := True,
               mGrabJoinable := True\<rparr>"

definition w_streaming :: "unit world" where
  "w_streaming = \<lparr>dev = (), errno = 0, trace = [], mappings = [(4096, 64), (4160, 64)]\<rparr>"

definition buf_first :: v4l2_buffer where
  "buf_first =
     \<lparr>vb_index = 0, vb_type = 1, vb_bytesused = - 1, vb_flags = 0, vb_tv_sec = 0,
      vb_tv_usec = 0, vb_memory = 1, vb_offset = 0, vb_length = 0\<rparr>"

text \<open>
  The world when \<^verbatim>\<open>openCamera\<close> has returned on that camera.
\<close>

definition w_opened :: "unit world" where
  "w_opened =
     w_mapped\<lparr>trace :=
       [Open 0 3, Ioctl 3 VIDIOC_QUERYCAP A_capability 0 0,
        Ioctl 3 VIDIOC_CROPCAP (A_cropcap 1) 0 0,
        Ioctl 3 VIDIOC_S_FMT (A_format (fmt_small\<lparr>pix_bytesperline := 0\<rparr>)) 0 0]
       @ trace w_mapped\<rparr>"

section \<open>Properties of the mode negotiation\<close>

text \<open>
  Claim C1. For each of the four resolutions and every requested frame rate, the frame
  rate held after \<^verbatim>\<open>checkResFps\<close> is given by the step function of the source: at 2K
  it is 15; at the other resolutions a supported request is kept, and any other request
  becomes 15 up to 22, 30 from 23 to 44, 60 from 45 to 79 and 100 from 80 on, cut off at
  the highest rate of the resolution (30 at 1080p, 60 at 720p, 100 at VGA). So the rate
  held is always one of the rates supported by the resolution (2K: 15; 1080p: 15, 30;
  720p: 15, 30, 60; VGA: 15, 30, 60, 100), and the thresholds snap VGA at 70 to 60, VGA
  at 85 to 100, 720p at 50 to 60 and 1080p at 20 to 15.
\<close>

theorem checkResFps_supported:
  "mFps (checkResFps tab (par\<lparr>par_res := HD2K\<rparr>) vc) = 15
   \<and> mFps (checkResFps tab (par\<lparr>par_res := HD1080\<rparr>) vc)
       = (if par_fps par \<in> {15, 30} then par_fps par
          else if par_fps par \<le> 22 then 15 else 30)
   \<and> mFps (checkResFps tab (par\<lparr>par_res := HD720\<rparr>) vc)
       = (if par_fps par \<in> {15, 30, 60} then par_fps par
          else if par_fps par \<le> 22 then 15 else if par_fps par < 45 then 30 else 60)
   \<and> mFps (checkResFps tab (par\<lparr>par_res := VGA\<rparr>) vc)
       = (if par_fps par \<in> {15, 30, 60, 100} then par_fps par
          else if par_fps par \<le> 22 then 15 else if par_fps par < 45 then 30
          else if par_fps par < 80 then 60 else 100)
   \<and> mFps (checkResFps tab (par\<lparr>par_res := HD2K\<rparr>) vc) \<in> {15}
   \<and> mFps (checkResFps tab (par\<lparr>par_res := HD1080\<rparr>) vc) \<in> {15, 30}
   \<and> mFps (checkResFps tab (par\<lparr>par_res := HD720\<rparr>) vc) \<in> {15, 30, 60}
   \<and> mFps (checkResFps tab (par\<lparr>par_res := VGA\<rparr>) vc) \<in> {15, 30, 60, 100}
   \<and> mFps (checkResFps tab \<lparr>par_res = VGA, par_fps = 70, par_verbose = v\<rparr> vc) = 60
   \<and> mFps (checkResFps tab \<lparr>par_res = VGA, par_fps = 85, par_verbose = v\<rparr> vc) = 100
   \<and> mFps (checkResFps tab \<lparr>par_res = HD720, par_fps = 50, par_verbose = v\<rparr> vc) = 60
   \<and> mFps (checkResFps tab \<lparr>par_res = HD1080, par_fps = 20, par_verbose = v\<rparr> vc) = 15"
  by (simp add: checkResFps_def Let_def)

section \<open>Properties of the control channel\<close>

lemma sys_ioctl_trace:
  "sys_ioctl K fd code arg w = (ret, arg', w') \<Longrightarrow>
     trace w' = trace w @ [Ioctl fd code arg ret (errno w')]"
  by (auto simp: sys_ioctl_def split: prod.splits)

lemma issued_self: "issued w w = []"
  by (simp add: issued_def)

lemma issued_append: "trace w' = trace w @ evs \<Longrightarrow> issued w w' = evs"
  by (simp add: issued_def)

lemma xioctl_loop_attempts:
  "xioctl_loop K fd code n arg w = (ret, arg', w') \<Longrightarrow>
     \<exists>evs. trace w' = trace w @ evs \<and> evs \<noteq> [] \<and> length evs \<le> Suc n
        \<and> list_all (\<lambda>e. ev_fd e = fd \<and> ev_code e = code) evs
        \<and> list_all (\<lambda>e. ev_ret e \<noteq> 0 \<and> transient_errno (ev_errno e)) (butlast evs)
        \<and> ev_ret (last evs) = ret
        \<and> (length evs \<le> n \<longrightarrow> ret = 0 \<or> \<not> transient_errno (ev_errno (last evs)))"
proof (induction K fd code n arg w rule: xioctl_loop.induct)
  case (1 K fd code tries arg w)
  obtain r a1 w1 where s: "sys_ioctl K fd code arg w = (r, a1, w1)"
    by (cases "sys_ioctl K fd code arg w") auto
  note t = sys_ioctl_trace [OF s]
  show ?case
  proof (cases "r \<noteq> 0 \<and> tries \<noteq> 0 \<and> (errno w1 = EINTR \<or> errno w1 = EAGAIN \<or> errno w1 = ETIMEDOUT)")
    case True
    with s "1.prems" have rec: "xioctl_loop K fd code (tries - 1) a1 w1 = (ret, arg', w')"
      by (subst (asm) xioctl_loop.simps) simp
    from "1.IH" [OF s [symmetric] refl True rec]
    obtain evs where e: "trace w' = trace w1 @ evs" "evs \<noteq> []" "length evs \<le> Suc (tries - 1)"
        "list_all (\<lambda>e. ev_fd e = fd \<and> ev_code e = code) evs"
        "list_all (\<lambda>e. ev_ret e \<noteq> 0 \<and> transient_errno (ev_errno e)) (butlast evs)"
        "ev_ret (last evs) = ret"
        "length evs \<le> tries - 1 \<longrightarrow> ret = 0 \<or> \<not> transient_errno (ev_errno (last evs))"
      by auto
    let ?e = "Ioctl fd code arg r (errno w1)"
    have "trace w' = trace w @ (?e # evs)" using t e by simp
    moreover have "length (?e # evs) \<le> Suc tries" using e True by simp
    moreover have "list_all (\<lambda>e. ev_ret e \<noteq> 0 \<and> transient_errno (ev_errno e)) (butlast (?e # evs))"
      using e True by (simp add: transient_errno_def)
    moreover have "length (?e # evs) \<le> tries \<longrightarrow> ret = 0 \<or> \<not> transient_errno (ev_errno (last (?e # evs)))"
      using e True by auto
    ultimately show ?thesis using e
      by (intro exI [of _ "?e # evs"]) simp
  next
    case False
    with s "1.prems" have "ret = r" "w' = w1"
      by (subst (asm) xioctl_loop.simps; auto)+
    with t False show ?thesis
      by (intro exI [of _ "[Ioctl fd code arg r (errno w1)]"]) (auto simp: transient_errno_def)
  qed
qed

text \<open>
  Claim C6, as the code has it. A request issued through \<^verbatim>\<open>xioctl\<close> is attempted
  at least once and at most 4 times (the first attempt and \<^verbatim>\<open>IOCTL_RETRY\<close> = 3
  repetitions), always with the same descriptor and request. Every attempt but the last
  failed with \<^verbatim>\<open>errno\<close> one of \<^verbatim>\<open>EINTR\<close>, \<^verbatim>\<open>EAGAIN\<close>, \<^verbatim>\<open>ETIMEDOUT\<close>; the
  value of the last attempt is what is returned; and when fewer than 4 attempts were
  made, the last one succeeded or failed with another \<^verbatim>\<open>errno\<close>, so such a failure
  is returned at once.
\<close>

theorem xioctl_attempts:
  "xioctl K fd code arg w = (ret, arg', w') \<Longrightarrow>
     trace w' = trace w @ issued w w'
   \<and> 1 \<le> length (issued w w') \<and> length (issued w w') \<le> 4
   \<and> list_all (\<lambda>e. ev_fd e = fd \<and> ev_code e = code) (issued w w')
   \<and> list_all (\<lambda>e. ev_ret e \<noteq> 0 \<and> transient_errno (ev_errno e)) (butlast (issued w w'))
   \<and> ev_ret (last (issued w w')) = ret
   \<and> (length (issued w w') < 4 \<longrightarrow> ret = 0 \<or> \<not> transient_errno (ev_errno (last (issued w w'))))"
proof -
  assume "xioctl K fd code arg w = (ret, arg', w')"
  then have "xioctl_loop K fd code 3 arg w = (ret, arg', w')"
    by (simp add: xioctl_def IOCTL_RETRY_def)
  from xioctl_loop_attempts [OF this]
  obtain evs where e: "trace w' = trace w @ evs" "evs \<noteq> []" "length evs \<le> Suc 3"
        "list_all (\<lambda>e. ev_fd e = fd \<and> ev_code e = code) evs"
        "list_all (\<lambda>e. ev_ret e \<noteq> 0 \<and> transient_errno (ev_errno e)) (butlast evs)"
        "ev_ret (last evs) = ret"
        "length evs \<le> 3 \<longrightarrow> ret = 0 \<or> \<not> transient_errno (ev_errno (last evs))"
    by blast
  then have i: "issued w w' = evs" by (simp add: issued_def)
  from e(2) have "1 \<le> length evs" by (cases evs) auto
  with e show ?thesis unfolding i by simp
qed

lemma flaky_eval:
  "xioctl K_flaky 3 VIDIOC_QUERYCAP A_capability w_flaky =
     (0, A_capability,
      \<lparr>dev = 3, errno = 0,
       trace = [Ioctl 3 VIDIOC_QUERYCAP A_capability (- 1) EAGAIN,
                Ioctl 3 VIDIOC_QUERYCAP A_capability (- 1) EAGAIN,
                Ioctl 3 VIDIOC_QUERYCAP A_capability 0 0],
       mappings = []\<rparr>)"
  by (simp add: xioctl_def IOCTL_RETRY_def xioctl_loop.simps sys_ioctl_def K_flaky_def w_flaky_def
      EAGAIN_def EINTR_def ETIMEDOUT_def)

text \<open>
  The theorem at a device that is busy twice: three attempts, the third one succeeds.
\<close>

theorem xioctl_attempts_witness:
  "length (issued w_flaky (snd (snd (xioctl K_flaky 3 VIDIOC_QUERYCAP A_capability w_flaky)))) = 3
   \<and> fst (xioctl K_flaky 3 VIDIOC_QUERYCAP A_capability w_flaky) = 0"
  using xioctl_attempts [OF flaky_eval]
  unfolding flaky_eval issued_def by (simp add: w_flaky_def)

text \<open>
  The claim as stated gives a bound of 3 attempts. On a device where every attempt is
  interrupted, \<^verbatim>\<open>xioctl\<close> issues a fourth one.
\<close>

theorem xioctl_four_attempts:
  "\<not> length (issued w_start (snd (snd (xioctl K_interrupted 3 VIDIOC_QUERYCAP A_capability w_start)))) \<le> 3"
  by (simp add: xioctl_def IOCTL_RETRY_def xioctl_loop.simps sys_ioctl_def K_interrupted_def w_start_def
      EAGAIN_def EINTR_def ETIMEDOUT_def issued_def)

section \<open>Properties of the vendor protocol\<close>

text \<open>
  Claim C7. A call of \<^verbatim>\<open>linux_cbs_VendorControl\<close> with a length above 384, or on an
  object that is not initialised, returns an error code (-2 for the length, -3
  otherwise) and leaves the buffer and the world as they were: no request has been
  issued on the device.
\<close>

theorem vendor_control_rejects_before_io:
  "384 < len \<or> \<not> mInitialized vc \<Longrightarrow>
     linux_cbs_VendorControl K vc buf len readMode w = (if 384 < len then - 2 else - 3, buf, w)
     \<and> issued w (snd (snd (linux_cbs_VendorControl K vc buf len readMode w))) = []"
  by (auto simp: linux_cbs_VendorControl_def issued_self)

theorem vendor_control_rejects_witness:
  "linux_cbs_VendorControl K_flaky vc_ready (replicate 385 0) 385 1 w_flaky
     = (- 2, replicate 385 0, w_flaky)
   \<and> linux_cbs_VendorControl K_flaky vc_closed (replicate 64 0) 64 0 w_flaky
     = (- 3, replicate 64 0, w_flaky)"
  using vendor_control_rejects_before_io [of 385 vc_ready K_flaky "replicate 385 0" 1 w_flaky]
    vendor_control_rejects_before_io [of 64 vc_closed K_flaky "replicate 64 0" 0 w_flaky]
  by (simp add: vc_closed_def)

lemma take_two: "2 \<le> length xs \<Longrightarrow> take 2 xs = [xs ! 0, xs ! 1]"
  by (cases xs; cases "tl xs") (auto simp: numeral_2_eq_2)

lemma vendor_control_trace:
  assumes "linux_cbs_VendorControl K vc buf len rm w = (hr, buf', w')"
    and "take 2 buf \<noteq> [XU_TASK_SET, sub]"
  shows "\<exists>evs. trace w' = trace w @ evs \<and> list_all (\<lambda>e. \<not> is_gpio_set sub e) evs"
  using assms
  by (auto simp: linux_cbs_VendorControl_def Let_def is_gpio_set_def
        UVC_GET_LEN_def UVC_SET_CUR_def UVC_GET_CUR_def
      split: if_splits prod.splits dest!: sys_ioctl_trace)

lemma vendor_control_nonpos:
  "linux_cbs_VendorControl K vc buf len rm w = (hr, buf', w') \<Longrightarrow> hr \<le> 0"
  by (auto simp: linux_cbs_VendorControl_def Let_def split: if_splits prod.splits)

lemma set_gpio_direction_trace:
  assumes "linux_cbs_set_gpio_direction K vc n d w = (hr, w')"
  shows "hr \<le> 0 \<and> (\<exists>evs. trace w' = trace w @ evs \<and> list_all (\<lambda>e. \<not> is_gpio_set 0x12 e) evs)"
proof -
  let ?buf = "(replicate 64 0)[0 := XU_TASK_SET, 1 := 0x10, 2 := word_of_int n, 3 := word_of_int d]"
  obtain b where v: "linux_cbs_VendorControl K vc ?buf 64 0 w = (hr, b, w')"
    using assms by (auto simp: linux_cbs_set_gpio_direction_def Let_def split: prod.splits)
  have "take 2 ?buf \<noteq> [XU_TASK_SET, 0x12]"
    by (simp add: take_two)
  from vendor_control_trace [OF v this] vendor_control_nonpos [OF v] show ?thesis by simp
qed


lemma get_gpio_value_trace:
  assumes "linux_cbs_get_gpio_value K vc n w = (hr, v, w')"
  shows "hr \<le> 0 \<and> (\<exists>evs. trace w' = trace w @ evs \<and> list_all (\<lambda>e. \<not> is_gpio_set 0x12 e) evs)"
proof -
  let ?buf = "(replicate 384 0)[0 := XU_TASK_GET, 1 := 0x13, 2 := word_of_int n]"
  obtain b where v: "linux_cbs_VendorControl K vc ?buf 384 1 w = (hr, b, w')"
    using assms by (auto simp: linux_cbs_get_gpio_value_def Let_def split: prod.splits)
  have "take 2 ?buf \<noteq> [XU_TASK_SET, 0x12]"
    by (simp add: take_two)
  from vendor_control_trace [OF v this] vendor_control_nonpos [OF v] show ?thesis by simp
qed

lemma getLEDValue_trace:
  assumes "getLEDValue K vc (Some b) w = (r, cur, w1)"
  shows "\<exists>evs. trace w1 = trace w @ evs \<and> list_all (\<lambda>e. \<not> is_gpio_set 0x12 e) evs"
proof -
  obtain hr1 wa hr2 v where
    d: "linux_cbs_set_gpio_direction K vc 2 1 w = (hr1, wa)" and
    g: "linux_cbs_get_gpio_value K vc 2 wa = (hr2, v, w1)"
    using assms by (auto simp: getLEDValue_def split: prod.splits)
  from set_gpio_direction_trace [OF d] get_gpio_value_trace [OF g] show ?thesis
    by auto
qed

text \<open>
  Claim C5, as the code has it. When the first read of \<^verbatim>\<open>toggleLED\<close>, the call of
  \<^verbatim>\<open>getLEDValue\<close>, returns a value other than 0, \<^verbatim>\<open>toggleLED\<close> returns that value,
  leaves the caller's variable alone and issues no request beyond those of the read; none
  of the requests carries the command that writes a GPIO value (sub-command 0x12).
  Nothing more is promised: the read itself starts by setting the direction of GPIO 2.
\<close>

theorem toggleLED_failed_read:
  "getLEDValue K vc (Some False) w = (r, cur, w1) \<Longrightarrow> r \<noteq> 0 \<Longrightarrow>
     toggleLED K vc val w = (r, val, w1)
     \<and> trace w1 = trace w @ issued w w1
     \<and> list_all (\<lambda>e. \<not> is_gpio_set 0x12 e) (issued w w1)"
proof -
  assume g: "getLEDValue K vc (Some False) w = (r, cur, w1)" and r: "r \<noteq> 0"
  from g r have "toggleLED K vc val w = (r, val, w1)"
    by (simp add: toggleLED_def)
  moreover from getLEDValue_trace [OF g] obtain evs where
    "trace w1 = trace w @ evs" "list_all (\<lambda>e. \<not> is_gpio_set 0x12 e) evs"
    by blast
  ultimately show ?thesis
    by (simp add: issued_def)
qed

lemma gpio_command_bytes:
  "(replicate 64 (0 :: byte))[0 := a, Suc 0 := b, 2 := c, 3 := d] = [a, b, c, d] @ replicate 60 0"
  by (simp add: eval_nat_numeral)

lemma two_then_fail_read:
  "getLEDValue K_two_then_fail vc_ready (Some False) w_flaky =
     (- 4, Some False,
      \<lparr>dev = 3, errno = 5,
       trace =
         [Ioctl 3 UVCIOC_CTRL_QUERY
            (A_xu \<lparr>xu_unit = 4, xu_selector = 2, xu_query = 0x85, xu_size = 2, xu_data = [0, 0]\<rparr>)
            0 0,
          Ioctl 3 UVCIOC_CTRL_QUERY
            (A_xu \<lparr>xu_unit = 4, xu_selector = 2, xu_query = 1, xu_size = 64,
                   xu_data = [0x50, 0x10, 2, 1] @ replicate 60 0\<rparr>)
            0 0,
          Ioctl 3 UVCIOC_CTRL_QUERY
            (A_xu \<lparr>xu_unit = 4, xu_selector = 2, xu_query = 0x85, xu_size = 2, xu_data = [0, 0]\<rparr>)
            (- 1) 5],
       mappings = []\<rparr>)"
  by (simp add: getLEDValue_def linux_cbs_set_gpio_direction_def linux_cbs_get_gpio_value_def
      linux_cbs_VendorControl_def sys_ioctl_def K_two_then_fail_def vc_ready_def vc_closed_def
      w_flaky_def xu_reply_def write_back_def Let_def cbs_xu_unit_id_def
      cbs_xu_control_selector_def UVC_GET_LEN_def UVC_SET_CUR_def UVC_GET_CUR_def
      XU_TASK_SET_def XU_TASK_GET_def READ_MODE_def gpio_command_bytes)

text \<open>
  The theorem at a device that takes the first command and then stops answering.
\<close>

theorem toggleLED_failed_read_witness:
  "toggleLED K_two_then_fail vc_ready (Some True) w_flaky
     = (- 4, Some True, snd (snd (getLEDValue K_two_then_fail vc_ready (Some False) w_flaky)))
   \<and> length (issued w_flaky (snd (snd (getLEDValue K_two_then_fail vc_ready (Some False) w_flaky)))) = 3"
  using toggleLED_failed_read [OF two_then_fail_read, of "Some True"]
  unfolding two_then_fail_read issued_def by (simp add: w_flaky_def)

text \<open>
  The claim as stated says that no state-changing operation reaches the device when
  the read fails. On the same device the read fails with -4, \<^verbatim>\<open>toggleLED\<close> returns
  -4, and the second request of the call is a \<^verbatim>\<open>UVC_SET_CUR\<close> carrying the command
  that sets the direction of the line (task 0x50, sub-command 0x10); the device took it
  (return value 0).
\<close>

theorem toggleLED_direction_written:
  "fst (getLEDValue K_two_then_fail vc_ready (Some False) w_flaky) = - 4
   \<and> fst (toggleLED K_two_then_fail vc_ready None w_flaky) = - 4
   \<and> is_gpio_set 0x10 (trace (snd (snd (toggleLED K_two_then_fail vc_ready None w_flaky))) ! 1)
   \<and> ev_ret (trace (snd (snd (toggleLED K_two_then_fail vc_ready None w_flaky))) ! 1) = 0"
  by (simp add: toggleLED_def two_then_fail_read is_gpio_set_def UVC_SET_CUR_def
      XU_TASK_SET_def)

section \<open>Properties of the standard controls\<close>

text \<open>
  Claim C3, as the code has it. The range a value is checked against is the queried
  range, or \<open>[1, 9]\<close> for the gamma control, when the range query succeeded, and
  \<open>[0, 6500]\<close> for every control, gamma included, when it failed. For every answer
  of the device to the range query, a value outside that range makes
  \<^verbatim>\<open>setCameraControlSettings\<close> return after the query alone: no
  \<^verbatim>\<open>VIDIOC_S_CTRL\<close> is issued.
\<close>

theorem setCameraControlSettings_out_of_range:
  "sys_ioctl K (mFileDesc vc) VIDIOC_QUERYCTRL (A_queryctrl (queryctrl_for ctrl_id)) w = (res, a1, w1) \<Longrightarrow>
   ctrl_val < fst (effective_range ctrl_id res (as_queryctrl a1 (queryctrl_for ctrl_id)))
   \<or> snd (effective_range ctrl_id res (as_queryctrl a1 (queryctrl_for ctrl_id))) < ctrl_val \<Longrightarrow>
     setCameraControlSettings K vc ctrl_id ctrl_val w = w1
     \<and> issued w w1 =
         [Ioctl (mFileDesc vc) VIDIOC_QUERYCTRL (A_queryctrl (queryctrl_for ctrl_id)) res (errno w1)]"
proof -
  assume q: "sys_ioctl K (mFileDesc vc) VIDIOC_QUERYCTRL (A_queryctrl (queryctrl_for ctrl_id)) w = (res, a1, w1)"
    and out: "ctrl_val < fst (effective_range ctrl_id res (as_queryctrl a1 (queryctrl_for ctrl_id)))
      \<or> snd (effective_range ctrl_id res (as_queryctrl a1 (queryctrl_for ctrl_id))) < ctrl_val"
  from q out have "setCameraControlSettings K vc ctrl_id ctrl_val w = w1"
    by (auto simp: setCameraControlSettings_def effective_range_def Let_def
        DEFAULT_MIN_GAMMA_def DEFAULT_MAX_GAMMA_def split: if_splits)
  moreover from sys_ioctl_trace [OF q] have
    "issued w w1 = [Ioctl (mFileDesc vc) VIDIOC_QUERYCTRL (A_queryctrl (queryctrl_for ctrl_id)) res (errno w1)]"
    by (rule issued_append)
  ultimately show ?thesis by simp
qed

lemma percent_query:
  "sys_ioctl K_percent (mFileDesc vc_ready) VIDIOC_QUERYCTRL
       (A_queryctrl (queryctrl_for LINUX_CTRL_BRIGHTNESS)) w_start =
     (0, A_queryctrl \<lparr>qc_id = 9963776, qc_minimum = 0, qc_maximum = 100, qc_step = 1,
                      qc_default_value = 50\<rparr>,
      \<lparr>dev = (), errno = 0,
       trace = [Ioctl 3 VIDIOC_QUERYCTRL (A_queryctrl (queryctrl_for LINUX_CTRL_BRIGHTNESS)) 0 0],
       mappings = []\<rparr>)"
  by (simp add: sys_ioctl_def K_percent_def vc_ready_def vc_closed_def w_start_def
      queryctrl_for_def LINUX_CTRL_BRIGHTNESS_def)

text \<open>
  The theorem at a device that reports \<open>[0, 100]\<close>, for brightness 150.
\<close>

theorem setCameraControlSettings_out_of_range_witness:
  "trace (setCameraControlSettings K_percent vc_ready LINUX_CTRL_BRIGHTNESS 150 w_start) =
     [Ioctl 3 VIDIOC_QUERYCTRL (A_queryctrl (queryctrl_for LINUX_CTRL_BRIGHTNESS)) 0 0]"
  using setCameraControlSettings_out_of_range [OF percent_query, of 150]
  by (simp add: effective_range_def as_queryctrl_def LINUX_CTRL_BRIGHTNESS_def
      LINUX_CTRL_GAMMA_def)

text \<open>
  The claim as stated takes the range of the gamma control to be \<open>[1, 9]\<close> whatever
  the device answers. On a device that rejects the range query, the value 100 for gamma
  is written.
\<close>

theorem setCameraControlSettings_gamma_fallback:
  "trace (setCameraControlSettings K_no_query vc_ready LINUX_CTRL_GAMMA 100 w_start) =
     [Ioctl 3 VIDIOC_QUERYCTRL (A_queryctrl (queryctrl_for LINUX_CTRL_GAMMA)) (- 1) 22,
      Ioctl 3 VIDIOC_S_CTRL (A_control \<lparr>ctl_id = 9963792, ctl_value = 100\<rparr>) 0 0]"
  by (simp add: setCameraControlSettings_def sys_ioctl_def K_no_query_def vc_ready_def
      vc_closed_def w_start_def Let_def LINUX_CTRL_GAMMA_def)

text \<open>
  The range is exact: a value inside it is written, whatever the device answers.
\<close>

lemma setCameraControlSettings_in_range:
  "sys_ioctl K (mFileDesc vc) VIDIOC_QUERYCTRL (A_queryctrl (queryctrl_for ctrl_id)) w = (res, a1, w1) \<Longrightarrow>
   fst (effective_range ctrl_id res (as_queryctrl a1 (queryctrl_for ctrl_id))) \<le> ctrl_val \<Longrightarrow>
   ctrl_val \<le> snd (effective_range ctrl_id res (as_queryctrl a1 (queryctrl_for ctrl_id))) \<Longrightarrow>
     map ev_arg (issued w (setCameraControlSettings K vc ctrl_id ctrl_val w)) =
       [A_queryctrl (queryctrl_for ctrl_id),
        A_control \<lparr>ctl_id = word_of_int ctrl_id, ctl_value = ctrl_val\<rparr>]"
proof -
  assume q: "sys_ioctl K (mFileDesc vc) VIDIOC_QUERYCTRL (A_queryctrl (queryctrl_for ctrl_id)) w = (res, a1, w1)"
    and lo: "fst (effective_range ctrl_id res (as_queryctrl a1 (queryctrl_for ctrl_id))) \<le> ctrl_val"
    and hi: "ctrl_val \<le> snd (effective_range ctrl_id res (as_queryctrl a1 (queryctrl_for ctrl_id)))"
  let ?c = "A_control \<lparr>ctl_id = word_of_int ctrl_id, ctl_value = ctrl_val\<rparr>"
  obtain r2 a2 w2 where s: "sys_ioctl K (mFileDesc vc) VIDIOC_S_CTRL ?c w1 = (r2, a2, w2)"
    by (cases "sys_ioctl K (mFileDesc vc) VIDIOC_S_CTRL ?c w1") auto
  from q s lo hi have "setCameraControlSettings K vc ctrl_id ctrl_val w = w2"
    by (auto simp: setCameraControlSettings_def effective_range_def Let_def
        DEFAULT_MIN_GAMMA_def DEFAULT_MAX_GAMMA_def split: if_splits)
  moreover from sys_ioctl_trace [OF q] sys_ioctl_trace [OF s] have
    "issued w w2 = [Ioctl (mFileDesc vc) VIDIOC_QUERYCTRL (A_queryctrl (queryctrl_for ctrl_id)) res (errno w1),
                    Ioctl (mFileDesc vc) VIDIOC_S_CTRL ?c r2 (errno w2)]"
    by (simp add: issued_def)
  ultimately show ?thesis by simp
qed

lemma setCameraControlSettings_in_range_witness:
  "map ev_arg (issued w_start (setCameraControlSettings K_percent vc_ready LINUX_CTRL_BRIGHTNESS 70 w_start)) =
     [A_queryctrl (queryctrl_for LINUX_CTRL_BRIGHTNESS),
      A_control \<lparr>ctl_id = 9963776, ctl_value = 70\<rparr>]"
  using setCameraControlSettings_in_range [OF percent_query, of 70]
  by (simp add: effective_range_def as_queryctrl_def LINUX_CTRL_BRIGHTNESS_def
      LINUX_CTRL_GAMMA_def)

text \<open>
  Claim C4, as the code has it. For every control, gamma included,
  \<^verbatim>\<open>resetCameraControlSettings\<close> issues the range query and then writes the default
  value found in the query structure after that call, unchanged: nothing is clamped.
\<close>

theorem resetCameraControlSettings_writes_default:
  "sys_ioctl K (mFileDesc vc) VIDIOC_QUERYCTRL (A_queryctrl (queryctrl_for ctrl_id)) w = (r, a1, w1) \<Longrightarrow>
     map ev_arg (issued w (resetCameraControlSettings K vc ctrl_id w)) =
       [A_queryctrl (queryctrl_for ctrl_id),
        A_control \<lparr>ctl_id = word_of_int ctrl_id,
                   ctl_value = qc_default_value (as_queryctrl a1 (queryctrl_for ctrl_id))\<rparr>]
     \<and> map ev_code (issued w (resetCameraControlSettings K vc ctrl_id w)) =
       [VIDIOC_QUERYCTRL, VIDIOC_S_CTRL]"
proof -
  assume q: "sys_ioctl K (mFileDesc vc) VIDIOC_QUERYCTRL (A_queryctrl (queryctrl_for ctrl_id)) w = (r, a1, w1)"
  let ?c = "A_control \<lparr>ctl_id = word_of_int ctrl_id,
                   ctl_value = qc_default_value (as_queryctrl a1 (queryctrl_for ctrl_id))\<rparr>"
  obtain r2 a2 w2 where s: "sys_ioctl K (mFileDesc vc) VIDIOC_S_CTRL ?c w1 = (r2, a2, w2)"
    by (cases "sys_ioctl K (mFileDesc vc) VIDIOC_S_CTRL ?c w1") auto
  from q s have "resetCameraControlSettings K vc ctrl_id w = w2"
    by (simp add: resetCameraControlSettings_def Let_def)
  moreover from sys_ioctl_trace [OF q] sys_ioctl_trace [OF s] have
    "issued w w2 = [Ioctl (mFileDesc vc) VIDIOC_QUERYCTRL (A_queryctrl (queryctrl_for ctrl_id)) r (errno w1),
                    Ioctl (mFileDesc vc) VIDIOC_S_CTRL ?c r2 (errno w2)]"
    by (simp add: issued_def)
  ultimately show ?thesis by simp
qed

text \<open>
  The theorem at a device that reports the default 50, for brightness.
\<close>

theorem resetCameraControlSettings_writes_default_witness:
  "map ev_arg (issued w_start (resetCameraControlSettings K_percent vc_ready LINUX_CTRL_BRIGHTNESS w_start)) =
     [A_queryctrl (queryctrl_for LINUX_CTRL_BRIGHTNESS),
      A_control \<lparr>ctl_id = 9963776, ctl_value = 50\<rparr>]"
  using resetCameraControlSettings_writes_default [OF percent_query]
  by (simp add: as_queryctrl_def LINUX_CTRL_BRIGHTNESS_def)

text \<open>
  The claim as stated has the value written for the gamma control clamped to
  \<open>[1, 9]\<close>. On a device that reports 50 as the default of gamma, 50 is written.
\<close>

theorem resetCameraControlSettings_gamma_unclamped:
  "trace (resetCameraControlSettings K_percent vc_ready LINUX_CTRL_GAMMA w_start) =
     [Ioctl 3 VIDIOC_QUERYCTRL (A_queryctrl (queryctrl_for LINUX_CTRL_GAMMA)) 0 0,
      Ioctl 3 VIDIOC_S_CTRL (A_control \<lparr>ctl_id = 9963792, ctl_value = 50\<rparr>) 0 0]"
  by (simp add: resetCameraControlSettings_def sys_ioctl_def K_percent_def vc_ready_def
      vc_closed_def w_start_def Let_def LINUX_CTRL_GAMMA_def queryctrl_for_def as_queryctrl_def)

section \<open>Properties of the consumer side\<close>

lemma wait_never:
  "wait_new_frame (\<lambda>k. False) time_count k = (False, k + unat (time_count - 1))"
proof (induction "\<lambda>k::nat. False" time_count k rule: wait_new_frame.induct)
  case (1 time_count k)
  show ?case
  proof (cases "time_count - 1 = 0")
    case True
    then show ?thesis
      by (subst wait_new_frame.simps) simp
  next
    case nz: False
    have "unat (time_count - 1 - 1) = unat (time_count - 1) - 1"
      using nz by (rule unat_minus_one)
    moreover have "0 < unat (time_count - 1)"
      by (rule unat_gt_0 [THEN iffD2, OF nz])
    ultimately have "Suc k + unat (time_count - 1 - 1) = k + unat (time_count - 1)"
      by linarith
    with "1" [OF _ nz] nz show ?thesis
      by (subst wait_new_frame.simps) simp
  qed
qed

text \<open>
  Claim C9 at the timeout 0. With no frame arriving, \<^verbatim>\<open>getLastFrame(0)\<close> does return
  the null pointer, but only after 18446744073709551615 sleeps of 100 microseconds: the
  counter is 0, is decremented to \<open>2^64 - 1\<close> before the comparison with 0, and
  has to run down from there.
\<close>

theorem getLastFrame_zero_timeout:
  "getLastFrame (\<lambda>k. False) (vc\<lparr>mNewFrame := False\<rparr>) 0
     = (None, vc\<lparr>mNewFrame := False\<rparr>, 18446744073709551615)"
  by (simp add: getLastFrame_def wait_never unsigned_minus_1_eq_mask mask_eq_exp_minus_1)

text \<open>
  For a timeout of \<open>t\<close> milliseconds with \<open>1 \<le> t\<close> and \<open>10 t < 2^64\<close> and no
  frame arriving, the null pointer is returned after \<open>10 t - 1\<close> sleeps of 100
  microseconds.
\<close>

lemma getLastFrame_timeout:
  assumes "0 < unat t" and "unat t * 10 < 2 ^ 64"
  shows "getLastFrame (\<lambda>k. False) (vc\<lparr>mNewFrame := False\<rparr>) t
     = (None, vc\<lparr>mNewFrame := False\<rparr>, 10 * unat t - 1)"
proof -
  have "unat (t * 10) = unat t * 10"
    using assms(2) by (simp add: unat_mult_lem [THEN iffD1])
  moreover from this assms(1) have "t * 10 \<noteq> 0"
    by (metis mult_is_0 not_less_zero unat_0 zero_neq_numeral less_numeral_extra(3))
  ultimately have "unat (t * 10 - 1) = 10 * unat t - 1"
    by (simp add: unat_minus_one)
  then show ?thesis
    by (simp add: getLastFrame_def wait_never)
qed

lemma getLastFrame_timeout_witness:
  "getLastFrame (\<lambda>k. False) (vc_closed\<lparr>mNewFrame := False\<rparr>) 100
     = (None, vc_closed\<lparr>mNewFrame := False\<rparr>, 999)"
  using getLastFrame_timeout [of 100 vc_closed] by simp

section \<open>Properties of opening and closing\<close>

lemmas cam_eval =
  init_def reset_def setLEDValue_def linux_cbs_set_gpio_direction_def
  linux_cbs_set_gpio_value_def linux_cbs_VendorControl_def openCamera_def
  openCamera_negotiated_def openCamera_buffers_def map_buffers.simps
  input_set_framerate_def startCapture_def xioctl_def IOCTL_RETRY_def xioctl_loop.simps
  sys_ioctl_def sys_open_def sys_close_def sys_mmap_def sys_munmap_def
  K_cam_def vc_small_def vc_closed_def w_start_def frame_empty_def Let_def
  as_format_def as_buffer_def as_requestbuffers_def MAP_FAILED_def
  EINTR_def EAGAIN_def ETIMEDOUT_def
  V4L2_BUF_TYPE_VIDEO_CAPTURE_def V4L2_MEMORY_MMAP_def V4L2_PIX_FMT_YUYV_def
  V4L2_FIELD_ANY_def V4L2_BUF_FLAG_TIMESTAMP_MONOTONIC_def V4L2_CAP_TIMEPERFRAME_def
  V4L2_PRIORITY_RECORD_def int_fits_def querybuf_request_def

lemma replicate_two: "replicate 2 x = [x, x]"
  by (simp add: numeral_2_eq_2)

lemma upt_two: "[0..<2] = [0, Suc 0]"
  by (simp add: numeral_2_eq_2)

lemma map_buffers_frame:
  "map_buffers K n vc w = (ok, vc', w') \<Longrightarrow>
     mLastFrame vc' = mLastFrame vc \<and> mWidth vc' = mWidth vc \<and> mHeight vc' = mHeight vc
     \<and> mChannels vc' = mChannels vc"
proof (induction K n vc w rule: map_buffers.induct)
  case (1 K count vc w)
  show ?case
  proof (cases "mBufCount vc < count")
    case False
    with "1.prems" show ?thesis
      by (subst (asm) map_buffers.simps) simp
  next
    case True
    let ?b0 = "querybuf_request (mBufCount vc)"
    obtain r a w1 where x: "xioctl K (mFileDesc vc) VIDIOC_QUERYBUF (A_buffer ?b0) w = (r, a, w1)"
      by (cases "xioctl K (mFileDesc vc) VIDIOC_QUERYBUF (A_buffer ?b0) w") auto
    show ?thesis
    proof (cases "r = - 1")
      case True
      with \<open>mBufCount vc < count\<close> x "1.prems" show ?thesis
        by (subst (asm) map_buffers.simps) (simp add: Let_def)
    next
      case False
      obtain addr w2 where m: "sys_mmap K (unat (vb_length (as_buffer a ?b0))) (mFileDesc vc)
                 (vb_offset (as_buffer a ?b0)) w1 = (addr, w2)"
        by (cases "sys_mmap K (unat (vb_length (as_buffer a ?b0))) (mFileDesc vc)
                 (vb_offset (as_buffer a ?b0)) w1") auto
      let ?vc = "vc\<lparr>mBuffers :=
                               map_option
                                 (\<lambda>bs. bs[mBufCount vc :=
                                            \<lparr>buf_start = addr,
                                             buf_length = unat (vb_length (as_buffer a ?b0))\<rparr>])
                                 (mBuffers vc),
                             mBufCount := Suc (mBufCount vc)\<rparr>"
      from \<open>mBufCount vc < count\<close> x False m "1.prems"
      have rec: "map_buffers K count ?vc w2 = (ok, vc', w')"
        by (subst (asm) map_buffers.simps) (simp add: Let_def)
      from "1.IH" [OF \<open>mBufCount vc < count\<close> refl x [symmetric] refl False refl m [symmetric] rec]
      show ?thesis by simp
    qed
  qed
qed

lemma mapped_bytes_length: "mapped_bytes K w a n = Some s \<Longrightarrow> length s = n"
  by (auto simp: mapped_bytes_def split: if_splits)

lemma openCamera_negotiated_alloc:
  assumes "openCamera_negotiated K vc wt ht fmt w = Inr (True, vc', w')"
  shows "frame_data (mLastFrame vc') = Some (replicate (nat (mWidth vc' * mHeight vc' * mChannels vc')) 0)
     \<and> mChannels vc' = sint (pix_bytesperline fmt div pix_width fmt)
     \<and> mWidth vc' = wt \<and> mHeight vc' = ht"
  using assms
  by (auto simp: openCamera_negotiated_def openCamera_buffers_def Let_def
      split: if_splits prod.splits dest!: map_buffers_frame)

text \<open>
  Claim C8 at a device that answers \<^verbatim>\<open>VIDIOC_S_FMT\<close> with the width 0 where 8
  was asked for. \<^verbatim>\<open>openCamera\<close> does not return: the reported width is the divisor of
  the channel count, and the division comes before the comparison with the request.
\<close>

theorem openCamera_zero_width:
  "openCamera (K_cam 0 2 32) 0 vc_small w_start = Inl DivisionByZero"
  by (simp add: cam_eval)

text \<open>
  Within one call and for a reported width other than 0 the comparison works: when the
  reported width or height differs from the one the object holds on entry,
  \<^verbatim>\<open>openCamera\<close> returns \<open>False\<close> right after the comparison, with no further
  request to the device.
\<close>

lemma openCamera_negotiated_mismatch:
  "pix_width fmt \<noteq> 0 \<Longrightarrow> sint (pix_width fmt) \<noteq> wt \<or> sint (pix_height fmt) \<noteq> ht \<Longrightarrow>
     openCamera_negotiated K vc wt ht fmt w =
       Inr (False,
            vc\<lparr>mWidth := sint (pix_width fmt), mHeight := sint (pix_height fmt),
               mChannels := sint (pix_bytesperline fmt div pix_width fmt)\<rparr>, w)"
  by (auto simp: openCamera_negotiated_def Let_def)

lemma openCamera_negotiated_mismatch_witness:
  "openCamera_negotiated (K_cam 4 2 32) (vc_small\<lparr>mFileDesc := 3\<rparr>) 8 2
       (fmt_small\<lparr>pix_width := 4\<rparr>) w_start =
     Inr (False, vc_small\<lparr>mFileDesc := 3, mWidth := 4, mHeight := 2, mChannels := 4\<rparr>, w_start)"
  using openCamera_negotiated_mismatch [of "fmt_small\<lparr>pix_width := 4\<rparr>" 8 2 "K_cam 4 2 32"
      "vc_small\<lparr>mFileDesc := 3\<rparr>" w_start]
  by (simp add: fmt_small_def)

text \<open>
  And whenever \<^verbatim>\<open>openCamera\<close> returns \<open>True\<close>, the width and height of the object
  are the ones it held on entry.
\<close>

lemma openCamera_keeps_resolution:
  "openCamera K devId vc w = Inr (True, vc', w') \<Longrightarrow>
     mWidth vc' = mWidth vc \<and> mHeight vc' = mHeight vc"
  by (auto simp: openCamera_def Let_def split: if_splits prod.splits
      dest!: openCamera_negotiated_alloc)

lemma openCamera_eval:
  "openCamera (K_cam 8 2 64) 0 vc_small w_start
     = Inr (True, vc_mapped\<lparr>mCameraModel := ZED_2_CBS\<rparr>, w_opened)"
  by (simp add: cam_eval replicate_two fmt_small_def vc_mapped_def w_mapped_def w_opened_def)

lemma openCamera_keeps_resolution_witness:
  "mWidth (vc_mapped\<lparr>mCameraModel := ZED_2_CBS\<rparr>) = 8
   \<and> mHeight (vc_mapped\<lparr>mCameraModel := ZED_2_CBS\<rparr>) = 2"
  using openCamera_keeps_resolution [OF openCamera_eval]
  by (simp add: vc_small_def)

text \<open>
  What the object holds on entry is the request of the caller only in the first attempt.
  A rejected attempt leaves the reported width and height in the object (lines 356-357
  come before the comparison), and the scan of \<^verbatim>\<open>init\<close> hands that object to the next
  node. At a camera that answers every format request with the width 4, the scan
  started for 8 by 2 rejects node 0 and then opens node 1 at 4 by 2, a resolution
  that was not asked for.
\<close>

lemma init_scan_substitutes:
  "mWidth vc_small = 8
   \<and> (case init (K_cam 4 2 32) (- 1) vc_small w_start of
         Inl f \<Rightarrow> False
       | Inr (ok, vc, w) \<Rightarrow> ok \<and> mDevId vc = 1 \<and> mWidth vc = 4 \<and> mHeight vc = 2)"
  by (simp add: cam_eval replicate_two upt_two upt_conv_Cons)

text \<open>
  Claim C2 at a device that grants two buffers and fails the query of the second.
  \<^verbatim>\<open>init\<close> returns \<open>False\<close> with the first buffer mapped (32 bytes at address
  4096); the following \<^verbatim>\<open>reset\<close> returns, and the mapping is still live:
  \<^verbatim>\<open>mInitialized\<close> is false, so the loop over \<^verbatim>\<open>munmap\<close> is skipped.
\<close>

theorem reset_after_failed_open:
  "(case init (K_cam 8 1 32) 0 vc_small w_start of
      Inl f \<Rightarrow> False
    | Inr (opened, vc, w) \<Rightarrow>
        \<not> opened \<and> mappings w = [(4096, 32)] \<and>
        (case reset (K_cam 8 1 32) vc w of
           Inl f \<Rightarrow> False
         | Inr (vc', w') \<Rightarrow> mappings w' = [(4096, 32)]))"
  by (simp add: cam_eval replicate_two)

lemma sys_ioctl_mappings:
  "sys_ioctl K fd code arg w = (r, a, w') \<Longrightarrow> mappings w' = mappings w"
  by (auto simp: sys_ioctl_def split: prod.splits)

lemma xioctl_loop_mappings:
  "xioctl_loop K fd code n arg w = (r, a, w') \<Longrightarrow> mappings w' = mappings w"
proof (induction K fd code n arg w rule: xioctl_loop.induct)
  case (1 K fd code tries arg w)
  obtain r1 a1 w1 where s: "sys_ioctl K fd code arg w = (r1, a1, w1)"
    by (cases "sys_ioctl K fd code arg w") auto
  show ?case
  proof (cases "r1 \<noteq> 0 \<and> tries \<noteq> 0 \<and> (errno w1 = EINTR \<or> errno w1 = EAGAIN \<or> errno w1 = ETIMEDOUT)")
    case True
    with s "1.prems" have "xioctl_loop K fd code (tries - 1) a1 w1 = (r, a, w')"
      by (subst (asm) xioctl_loop.simps) simp
    from "1.IH" [OF s [symmetric] refl True this] sys_ioctl_mappings [OF s]
    show ?thesis by simp
  next
    case False
    with s "1.prems" have "w' = w1"
      by (subst (asm) xioctl_loop.simps) auto
    with sys_ioctl_mappings [OF s] show ?thesis by simp
  qed
qed

lemma xioctl_mappings:
  "mappings (snd (snd (xioctl K fd code arg w))) = mappings w"
  by (cases "xioctl K fd code arg w") (auto simp: xioctl_def dest: xioctl_loop_mappings)

lemma vendor_control_mappings:
  "linux_cbs_VendorControl K vc buf len rm w = (hr, buf', w') \<Longrightarrow> mappings w' = mappings w"
  by (auto simp: linux_cbs_VendorControl_def Let_def split: if_splits prod.splits
      dest!: sys_ioctl_mappings)

lemma setLEDValue_mappings:
  "mappings (snd (setLEDValue K vc d w)) = mappings w"
  by (auto simp: setLEDValue_def linux_cbs_set_gpio_direction_def linux_cbs_set_gpio_value_def
      Let_def split: prod.splits dest!: vendor_control_mappings)

lemma munmap_buffers_mappings:
  "\<forall>j \<in> set js. j < length bs \<Longrightarrow>
     \<exists>w'. munmap_buffers bs js w = Inr w'
       \<and> set (mappings w') =
           set (mappings w) - (\<lambda>j. (buf_start (bs ! j), buf_length (bs ! j))) ` set js"
proof (induction js arbitrary: w)
  case Nil
  then show ?case by simp
next
  case (Cons j js)
  let ?w = "sys_munmap (buf_start (bs ! j)) (buf_length (bs ! j)) w"
  from Cons.prems have "\<forall>j \<in> set js. j < length bs" by simp
  from Cons.IH [OF this, of ?w] obtain w' where
    "munmap_buffers bs js ?w = Inr w'"
    "set (mappings w') = set (mappings ?w) - (\<lambda>j. (buf_start (bs ! j), buf_length (bs ! j))) ` set js"
    by blast
  with Cons.prems show ?case
    by (auto simp: sys_munmap_def)
qed

lemma setLEDValue_not_initialized:
  "\<not> mInitialized vc \<Longrightarrow> setLEDValue K vc d w = (- 6, w)"
  by (simp add: setLEDValue_def linux_cbs_set_gpio_direction_def linux_cbs_set_gpio_value_def
      linux_cbs_VendorControl_def Let_def)

text \<open>
  The rest of the claim holds. On an initialised object whose array holds at least
  \<^verbatim>\<open>mBufCount\<close> buffers, \<^verbatim>\<open>reset\<close> returns, clears \<^verbatim>\<open>mInitialized\<close> and the
  array, and none of the recorded mappings is live afterwards.
\<close>

lemma reset_unmaps_initialized:
  assumes "mInitialized vc" and "mBuffers vc = Some bs" and "mBufCount vc \<le> length bs"
  shows "\<exists>vc' w'. reset K vc w = Inr (vc', w') \<and> \<not> mInitialized vc' \<and> mBuffers vc' = None
     \<and> set (mappings w') =
         set (mappings w) - (\<lambda>b. (buf_start b, buf_length b)) ` set (take (mBufCount vc) bs)"
proof -
  obtain hr w1 where l: "setLEDValue K vc False w = (hr, w1)"
    by (cases "setLEDValue K vc False w") auto
  from setLEDValue_mappings [of K vc False w] l have m1: "mappings w1 = mappings w" by simp
  define w2 where "w2 = (if mFileDesc vc \<noteq> - 1
                    then snd (snd (xioctl K (mFileDesc vc) VIDIOC_STREAMOFF
                                     (A_type V4L2_BUF_TYPE_VIDEO_CAPTURE) w1))
                    else w1)"
  have m2: "mappings w2 = mappings w" using m1 by (simp add: w2_def xioctl_mappings)
  have "\<forall>j \<in> set [0..<mBufCount vc]. j < length bs" using assms(3) by simp
  from munmap_buffers_mappings [OF this, of w2] obtain w3 where
    u: "munmap_buffers bs [0..<mBufCount vc] w2 = Inr w3"
    and m3: "set (mappings w3) =
        set (mappings w2) - (\<lambda>j. (buf_start (bs ! j), buf_length (bs ! j))) ` set [0..<mBufCount vc]"
    by blast
  have img: "(\<lambda>j. (buf_start (bs ! j), buf_length (bs ! j))) ` set [0..<mBufCount vc]
      = (\<lambda>b. (buf_start b, buf_length b)) ` set (take (mBufCount vc) bs)"
    using assms(3) by (force simp: in_set_conv_nth image_iff)
  show ?thesis
    using l assms(1,2) u m3 m2 img
    by (cases "mFileDesc vc = - 1") (simp_all add: reset_def Let_def w2_def sys_close_def)
qed

lemma reset_unmaps_initialized_witness:
  "\<exists>vc' w'. reset (K_cam 8 2 64) vc_streaming w_streaming = Inr (vc', w')
      \<and> \<not> mInitialized vc' \<and> mBuffers vc' = None \<and> mappings w' = []"
  using reset_unmaps_initialized [of vc_streaming
      "[\<lparr>buf_start = 4096, buf_length = 64\<rparr>, \<lparr>buf_start = 4160, buf_length = 64\<rparr>]"
      "K_cam 8 2 64" w_streaming]
  by (simp add: vc_streaming_def vc_mapped_def vc_small_def vc_closed_def w_streaming_def)

text \<open>
  On an object that is not initialised (never opened, or already reset),
  \<^verbatim>\<open>reset\<close> returns and leaves the mappings as they are.
\<close>

lemma reset_not_initialized:
  assumes "\<not> mInitialized vc"
  shows "\<exists>vc' w'. reset K vc w = Inr (vc', w') \<and> \<not> mInitialized vc'
     \<and> mBuffers vc' = mBuffers vc \<and> mappings w' = mappings w"
  using assms
  by (cases "mFileDesc vc = - 1"; cases "mBuffers vc")
     (simp_all add: reset_def Let_def setLEDValue_not_initialized sys_close_def xioctl_mappings)

lemma reset_not_initialized_witness:
  "\<exists>vc' w'. reset K_interrupted vc_closed w_start = Inr (vc', w')
      \<and> \<not> mInitialized vc' \<and> mBuffers vc' = None \<and> mappings w' = []"
  using reset_not_initialized [of vc_closed K_interrupted w_start]
  by (simp add: vc_closed_def w_start_def)

lemma reset_closed_eval:
  "reset K_interrupted vc_closed w_start
     = Inr (vc_closed\<lparr>mStopCapture := True\<rparr>, w_start\<lparr>trace := [Close (- 1)]\<rparr>)"
  by (simp add: reset_def setLEDValue_not_initialized vc_closed_def w_start_def Let_def
      sys_close_def frame_empty_def)

text \<open>
  So a second \<^verbatim>\<open>reset\<close> in a row returns and changes no mapping.
\<close>

lemma reset_twice:
  assumes "reset K vc w = Inr (vc1, w1)"
  shows "\<exists>vc2 w2. reset K vc1 w1 = Inr (vc2, w2) \<and> mappings w2 = mappings w1"
proof -
  from assms have "\<not> mInitialized vc1"
    by (auto simp: reset_def Let_def split: prod.splits sum.splits option.splits if_splits)
  from reset_not_initialized [OF this] show ?thesis by blast
qed

lemma reset_twice_witness:
  "\<exists>vc2 w2. reset K_interrupted (vc_closed\<lparr>mStopCapture := True\<rparr>)
                (w_start\<lparr>trace := [Close (- 1)]\<rparr>) = Inr (vc2, w2)
      \<and> mappings w2 = []"
  using reset_twice [OF reset_closed_eval]
  by (simp add: w_start_def)

section \<open>Properties of the capture loop\<close>

text \<open>
  The loop of lines 408-436, turn by turn: it is over when the counter has reached
  \<open>count\<close>, and otherwise queries buffer \<open>mBufCount\<close>, maps it and records the
  address and the length of the answer at that index.
\<close>

lemma map_buffers_done:
  "\<not> mBufCount vc < count \<Longrightarrow> map_buffers K count vc w = (True, vc, w)"
  by (subst map_buffers.simps) simp

lemma map_buffers_turn:
  "mBufCount vc < count \<Longrightarrow>
     map_buffers K count vc w =
       (case xioctl K (mFileDesc vc) VIDIOC_QUERYBUF (A_buffer (querybuf_request (mBufCount vc))) w of
          (r, a, w1) \<Rightarrow>
            if r = - 1 then (False, vc, w1)
            else
              case sys_mmap K (unat (vb_length (as_buffer a (querybuf_request (mBufCount vc)))))
                     (mFileDesc vc) (vb_offset (as_buffer a (querybuf_request (mBufCount vc)))) w1 of
                (addr, w2) \<Rightarrow>
                  map_buffers K count
                    (vc\<lparr>mBuffers :=
                          map_option
                            (\<lambda>bs. bs[mBufCount vc :=
                                       \<lparr>buf_start = addr,
                                        buf_length =
                                          unat (vb_length (as_buffer a (querybuf_request (mBufCount vc))))\<rparr>])
                            (mBuffers vc),
                        mBufCount := Suc (mBufCount vc)\<rparr>) w2)"
  by (subst map_buffers.simps) (simp add: Let_def split: prod.split)

text \<open>
  A run of the loop keeps the descriptor, the size of the array and every element below
  the counter it started from; a run that succeeds ends with the counter at
  \<open>count\<close>.
\<close>

lemma map_buffers_keeps:
  "map_buffers K n vc w = (ok, vc', w') \<Longrightarrow> mBuffers vc = Some bs \<Longrightarrow>
     mFileDesc vc' = mFileDesc vc \<and> mBufCount vc \<le> mBufCount vc'
     \<and> (ok \<longrightarrow> mBufCount vc \<le> n \<longrightarrow> mBufCount vc' = n)
     \<and> (\<exists>bs'. mBuffers vc' = Some bs' \<and> length bs' = length bs
            \<and> (\<forall>j < mBufCount vc. bs' ! j = bs ! j))"
proof (induction K n vc w arbitrary: bs rule: map_buffers.induct)
  case (1 K count vc w)
  show ?case
  proof (cases "mBufCount vc < count")
    case False
    with "1.prems" show ?thesis
      by (auto simp: map_buffers_done)
  next
    case True
    let ?b0 = "querybuf_request (mBufCount vc)"
    obtain r a w1 where x: "xioctl K (mFileDesc vc) VIDIOC_QUERYBUF (A_buffer ?b0) w = (r, a, w1)"
      by (cases "xioctl K (mFileDesc vc) VIDIOC_QUERYBUF (A_buffer ?b0) w") auto
    show ?thesis
    proof (cases "r = - 1")
      case True
      with \<open>mBufCount vc < count\<close> x "1.prems" show ?thesis
        by (auto simp: map_buffers_turn)
    next
      case False
      obtain addr w2 where m: "sys_mmap K (unat (vb_length (as_buffer a ?b0))) (mFileDesc vc)
                 (vb_offset (as_buffer a ?b0)) w1 = (addr, w2)"
        by (cases "sys_mmap K (unat (vb_length (as_buffer a ?b0))) (mFileDesc vc)
                 (vb_offset (as_buffer a ?b0)) w1") auto
      let ?bs = "bs[mBufCount vc := \<lparr>buf_start = addr,
                                     buf_length = unat (vb_length (as_buffer a ?b0))\<rparr>]"
      let ?vc = "vc\<lparr>mBuffers := map_option
                                 (\<lambda>bs. bs[mBufCount vc :=
                                            \<lparr>buf_start = addr,
                                             buf_length = unat (vb_length (as_buffer a ?b0))\<rparr>])
                                 (mBuffers vc),
                             mBufCount := Suc (mBufCount vc)\<rparr>"
      from \<open>mBufCount vc < count\<close> x False m "1.prems"
      have rec: "map_buffers K count ?vc w2 = (ok, vc', w')"
        by (simp add: map_buffers_turn)
      have b: "mBuffers ?vc = Some ?bs" using "1.prems" by simp
      from "1.IH" [OF \<open>mBufCount vc < count\<close> refl x [symmetric] refl False refl m [symmetric] rec b]
      show ?thesis using \<open>mBufCount vc < count\<close> by auto
    qed
  qed
qed

text \<open>
  The run up to \<open>count\<close> is the run up to \<open>i\<close> followed by the run from
  there, so \<open>map_buffers K i vc w\<close> is the state in which turn \<open>i\<close> starts.
\<close>

lemma map_buffers_split:
  "mBufCount vc \<le> i \<Longrightarrow> i \<le> count \<Longrightarrow>
     map_buffers K count vc w =
       (case map_buffers K i vc w of
          (ok, vci, wi) \<Rightarrow> if ok then map_buffers K count vci wi else (False, vci, wi))"
proof (induction K i vc w rule: map_buffers.induct)
  case (1 K i vc w)
  show ?case
  proof (cases "mBufCount vc < i")
    case False
    then show ?thesis by (simp add: map_buffers_done)
  next
    case True
    with "1.prems" have c: "mBufCount vc < count" by simp
    let ?b0 = "querybuf_request (mBufCount vc)"
    obtain r a w1 where x: "xioctl K (mFileDesc vc) VIDIOC_QUERYBUF (A_buffer ?b0) w = (r, a, w1)"
      by (cases "xioctl K (mFileDesc vc) VIDIOC_QUERYBUF (A_buffer ?b0) w") auto
    show ?thesis
    proof (cases "r = - 1")
      case True
      with \<open>mBufCount vc < i\<close> c x show ?thesis
        by (simp add: map_buffers_turn)
    next
      case False
      obtain addr w2 where m: "sys_mmap K (unat (vb_length (as_buffer a ?b0))) (mFileDesc vc)
                 (vb_offset (as_buffer a ?b0)) w1 = (addr, w2)"
        by (cases "sys_mmap K (unat (vb_length (as_buffer a ?b0))) (mFileDesc vc)
                 (vb_offset (as_buffer a ?b0)) w1") auto
      let ?vc = "vc\<lparr>mBuffers := map_option
                                 (\<lambda>bs. bs[mBufCount vc :=
                                            \<lparr>buf_start = addr,
                                             buf_length = unat (vb_length (as_buffer a ?b0))\<rparr>])
                                 (mBuffers vc),
                             mBufCount := Suc (mBufCount vc)\<rparr>"
      have le: "mBufCount ?vc \<le> i" using True by simp
      from "1.IH" [OF \<open>mBufCount vc < i\<close> refl x [symmetric] refl False refl m [symmetric] le "1.prems"(2)]
      show ?thesis using True c x False m
        by (simp add: map_buffers_turn)
    qed
  qed
qed

text \<open>
  Line 428: the length recorded for buffer \<open>i\<close> is the length in the answer to the
  \<^verbatim>\<open>VIDIOC_QUERYBUF\<close> of turn \<open>i\<close>, and no later turn changes it.
\<close>

lemma map_buffers_records_answer:
  assumes run: "map_buffers K count vc w = (True, vc', w')"
    and bs: "mBuffers vc = Some bs" and len: "count \<le> length bs"
    and i: "mBufCount vc \<le> i" "i < count"
    and pre: "map_buffers K i vc w = (ok, vci, wi)"
    and q: "xioctl K (mFileDesc vc) VIDIOC_QUERYBUF (A_buffer (querybuf_request i)) wi = (r, a, wi1)"
    and m: "sys_mmap K (unat (vb_length (as_buffer a (querybuf_request i)))) (mFileDesc vc)
              (vb_offset (as_buffer a (querybuf_request i))) wi1 = (addr, wi2)"
  shows "ok \<and> r \<noteq> - 1
     \<and> (\<exists>bs'. mBuffers vc' = Some bs' \<and> length bs' = length bs
           \<and> bs' ! i = \<lparr>buf_start = addr,
                         buf_length = unat (vb_length (as_buffer a (querybuf_request i)))\<rparr>)"
proof -
  from map_buffers_split [of vc i count K w] i pre run
  have ok: ok and rest: "map_buffers K count vci wi = (True, vc', w')"
    by (auto split: if_splits)
  from map_buffers_keeps [OF pre bs] ok i obtain bsi where
    k: "mFileDesc vci = mFileDesc vc" "mBufCount vci = i" "mBuffers vci = Some bsi"
       "length bsi = length bs"
    by auto
  let ?b = "\<lparr>buf_start = addr, buf_length = unat (vb_length (as_buffer a (querybuf_request i)))\<rparr>"
  let ?vc = "vci\<lparr>mBuffers := Some (bsi[i := ?b]), mBufCount := Suc i\<rparr>"
  from rest k i q m have r: "r \<noteq> - 1" and next_run: "map_buffers K count ?vc wi2 = (True, vc', w')"
    by (auto simp: map_buffers_turn split: if_splits)
  have "mBuffers ?vc = Some (bsi[i := ?b])" by simp
  from map_buffers_keeps [OF next_run this] obtain bs' where
    "mBuffers vc' = Some bs'" "length bs' = length (bsi[i := ?b])"
    "\<forall>j < mBufCount ?vc. bs' ! j = bsi[i := ?b] ! j"
    by auto
  with k i len ok r show ?thesis by auto
qed

lemma openCamera_buffers_lengths:
  assumes "openCamera_buffers K vc req w = (True, vc', w')" and "i < unat (rb_count req)"
    and "map_buffers K i
           (vc\<lparr>mBuffers := Some (replicate (unat (rb_count req)) \<lparr>buf_start = 0, buf_length = 0\<rparr>),
               mBufCount := 0\<rparr>) w = (ok, vci, wi)"
    and "xioctl K (mFileDesc vc) VIDIOC_QUERYBUF (A_buffer (querybuf_request i)) wi = (r, a, wi1)"
    and "sys_mmap K (unat (vb_length (as_buffer a (querybuf_request i)))) (mFileDesc vc)
              (vb_offset (as_buffer a (querybuf_request i))) wi1 = (addr, wi2)"
  shows "ok \<and> r \<noteq> - 1 \<and> mBufCount vc' = unat (rb_count req)
     \<and> (\<exists>bs. mBuffers vc' = Some bs \<and> length bs = unat (rb_count req)
           \<and> bs ! i = \<lparr>buf_start = addr,
                        buf_length = unat (vb_length (as_buffer a (querybuf_request i)))\<rparr>)"
proof -
  let ?vc = "vc\<lparr>mBuffers := Some (replicate (unat (rb_count req)) \<lparr>buf_start = 0, buf_length = 0\<rparr>),
               mBufCount := 0\<rparr>"
  from assms(1) obtain vc2 where
    run: "map_buffers K (unat (rb_count req)) ?vc w = (True, vc2, w')"
    and vc': "vc' = vc2\<lparr>mBufCount := unat (rb_count req)\<rparr>"
    by (auto simp: openCamera_buffers_def Let_def split: prod.splits if_splits)
  have "mBuffers ?vc = Some (replicate (unat (rb_count req)) \<lparr>buf_start = 0, buf_length = 0\<rparr>)"
    by simp
  from map_buffers_records_answer [OF run this _ _ assms(2) assms(3)] assms(4,5) vc'
  show ?thesis by simp
qed

text \<open>
  A successful negotiation has computed \<^verbatim>\<open>bufSize\<close> without overflow, and the object
  it returns is the one the mapping loop has left.
\<close>

lemma openCamera_negotiated_size:
  assumes "openCamera_negotiated K vc wt ht fmt w = Inr (True, vc', w')"
  shows "0 \<le> mWidth vc' * mHeight vc' * mChannels vc'
     \<and> mWidth vc' * mHeight vc' * mChannels vc' \<le> 2147483647
     \<and> (\<exists>vcB req wB. openCamera_buffers K vcB req wB = (True, vc', w')
            \<and> mFileDesc vcB = mFileDesc vc)"
proof -
  let ?vc2 = "vc\<lparr>mWidth := sint (pix_width fmt), mHeight := sint (pix_height fmt),
                  mChannels := sint (pix_bytesperline fmt div pix_width fmt)\<rparr>"
  from assms obtain vcB req wB where
    b: "openCamera_buffers K vcB req wB = (True, vc', w')"
    and f: "mFileDesc vcB = mFileDesc vc"
    and m: "mWidth vcB = mWidth ?vc2" "mHeight vcB = mHeight ?vc2" "mChannels vcB = mChannels ?vc2"
    and s: "int_fits (mWidth ?vc2 * mHeight ?vc2 * mChannels ?vc2)"
           "\<not> mWidth ?vc2 * mHeight ?vc2 * mChannels ?vc2 < 0"
    by (auto simp: openCamera_negotiated_def Let_def split: if_splits prod.splits)
  from b obtain ok vcM where "map_buffers K (unat (rb_count req))
        (vcB\<lparr>mBuffers := Some (replicate (unat (rb_count req)) \<lparr>buf_start = 0, buf_length = 0\<rparr>),
             mBufCount := 0\<rparr>) wB = (ok, vcM, w')"
      and "vc' = vcM\<lparr>mBufCount := unat (rb_count req)\<rparr>"
    by (auto simp: openCamera_buffers_def Let_def split: prod.splits if_splits)
  from map_buffers_frame [OF this(1)] this(2) m
  have "mWidth vc' = mWidth ?vc2" "mHeight vc' = mHeight ?vc2" "mChannels vc' = mChannels ?vc2"
    by simp_all
  with s b f show ?thesis
    by (auto simp: int_fits_def)
qed

text \<open>
  \<^verbatim>\<open>init\<close> returns \<open>True\<close> only after a successful negotiation, and what follows
  the negotiation (\<^verbatim>\<open>startCapture\<close>, the flag \<^verbatim>\<open>mInitialized\<close>, the LED) keeps
  the buffer array, the payload and the sizes.
\<close>

lemma openCamera_from_negotiated:
  "openCamera K devId vc w = Inr (True, vc', w') \<Longrightarrow>
     \<exists>vcP wt ht fmt wP. openCamera_negotiated K vcP wt ht fmt wP = Inr (True, vc', w')"
  by (auto simp: openCamera_def Let_def split: if_splits prod.splits; blast)

lemma open_first_from_negotiated:
  "open_first K js vc w = Inr (True, vc', w') \<Longrightarrow>
     \<exists>vcP wt ht fmt wP. openCamera_negotiated K vcP wt ht fmt wP = Inr (True, vc', w')"
proof (induction js arbitrary: vc w)
  case Nil
  then show ?case by simp
next
  case (Cons i js)
  then show ?case
    by (auto split: sum.splits prod.splits if_splits dest: openCamera_from_negotiated)
qed

lemma startCapture_keeps:
  "startCapture K vc w = (ok, vc', w') \<Longrightarrow>
     mBuffers vc' = mBuffers vc \<and> mBufCount vc' = mBufCount vc \<and> mLastFrame vc' = mLastFrame vc
     \<and> mWidth vc' = mWidth vc \<and> mHeight vc' = mHeight vc \<and> mChannels vc' = mChannels vc"
  by (auto simp: startCapture_def split: prod.splits if_splits)

lemma init_from_negotiated:
  assumes "init K devId vc w = Inr (True, vc', w')"
  shows "\<exists>vcP wt ht fmt wP vcN wN.
           openCamera_negotiated K vcP wt ht fmt wP = Inr (True, vcN, wN)
           \<and> mBuffers vc' = mBuffers vcN \<and> mBufCount vc' = mBufCount vcN
           \<and> mLastFrame vc' = mLastFrame vcN \<and> mWidth vc' = mWidth vcN
           \<and> mHeight vc' = mHeight vcN \<and> mChannels vc' = mChannels vcN"
proof -
  from assms obtain vc1 w1 vc2 w2 vc3 w3 where
    o: "(if devId = - 1 then open_first K [0..<64] vc1 w1
         else openCamera K (nat (devId mod 256)) vc1 w1) = Inr (True, vc2, w2)"
    and s: "startCapture K vc2 w2 = (True, vc3, w3)"
    and v: "vc' = vc3\<lparr>mInitialized := True\<rparr>"
    by (auto simp: init_def Let_def split: sum.splits prod.splits if_splits)
  from o obtain vcP wt ht fmt wP where
    "openCamera_negotiated K vcP wt ht fmt wP = Inr (True, vc2, w2)"
    by (auto split: if_splits dest: openCamera_from_negotiated open_first_from_negotiated)
  with startCapture_keeps [OF s] v show ?thesis
    by (intro exI [of _ vcP] exI [of _ wt] exI [of _ ht] exI [of _ fmt] exI [of _ wP]
        exI [of _ vc2] exI [of _ w2]) simp
qed

text \<open>
  A turn of the capture loop that returns keeps the buffer array, the sizes, the size of
  the payload and the mappings.
\<close>

lemma grab_iteration_keeps:
  assumes "grab_iteration K vc buf w = Inr (vc', buf', w')"
  shows "mBuffers vc' = mBuffers vc \<and> mBufCount vc' = mBufCount vc
     \<and> mWidth vc' = mWidth vc \<and> mHeight vc' = mHeight vc \<and> mChannels vc' = mChannels vc
     \<and> map_option length (frame_data (mLastFrame vc'))
         = map_option length (frame_data (mLastFrame vc))
     \<and> mappings w' = mappings w"
  using assms
  by (auto simp: grab_iteration_def store_frame_def memcpy_def mapped_bytes_def Let_def
      split: prod.splits sum.splits option.splits if_splits dest!: sys_ioctl_mappings)

text \<open>
  Claim C10. A successful negotiation leaves a payload of
  \<open>mWidth * mHeight * mChannels\<close> bytes, a product that fits an \<^verbatim>\<open>int\<close>, where
  \<open>mChannels\<close> is the unsigned quotient of the reported bytes per line by the reported
  width; the object it returns is the one left by the mapping loop. The mapping loop
  records for every buffer \<open>i\<close> the length the kernel answered to the
  \<^verbatim>\<open>VIDIOC_QUERYBUF\<close> of turn \<open>i\<close>. The object with which \<^verbatim>\<open>init\<close> succeeds
  holds the buffer array, the payload and the sizes of a successful negotiation, and
  every turn of the capture loop that returns keeps the array, the sizes and the size of
  the payload. When the capture loop accepts a dequeued buffer and the guard of the copy
  holds, the bytes copied are the whole mapped buffer, \<open>buf_length b\<close> of them, the
  recorded length: if that is at most the size of the payload, the payload starts with
  these bytes and keeps its other bytes; if it is larger, the copy runs past the end of
  the payload. Nothing in the loop compares the two sizes.
\<close>

theorem grab_copy_length:
  "(openCamera_negotiated K vc0 wt ht fmt w0 = Inr (True, vcN, wN) \<longrightarrow>
      frame_data (mLastFrame vcN)
        = Some (replicate (nat (mWidth vcN * mHeight vcN * mChannels vcN)) 0)
      \<and> mChannels vcN = sint (pix_bytesperline fmt div pix_width fmt)
      \<and> 0 \<le> mWidth vcN * mHeight vcN * mChannels vcN
      \<and> mWidth vcN * mHeight vcN * mChannels vcN \<le> 2147483647
      \<and> (\<exists>vcB req wB. openCamera_buffers K vcB req wB = (True, vcN, wN)
             \<and> mFileDesc vcB = mFileDesc vc0))
   \<and> (openCamera_buffers K vcB req wB = (True, vcO, wO) \<and> i < unat (rb_count req) \<longrightarrow>
        (case map_buffers K i
                (vcB\<lparr>mBuffers := Some (replicate (unat (rb_count req))
                                          \<lparr>buf_start = 0, buf_length = 0\<rparr>),
                     mBufCount := 0\<rparr>) wB of
           (ok, vci, wi) \<Rightarrow>
             (case xioctl K (mFileDesc vcB) VIDIOC_QUERYBUF (A_buffer (querybuf_request i)) wi of
                (r, a, wi1) \<Rightarrow>
                  ok \<and> r \<noteq> - 1 \<and> mBufCount vcO = unat (rb_count req)
                  \<and> (\<exists>bs. mBuffers vcO = Some bs \<and> length bs = unat (rb_count req)
                         \<and> buf_length (bs ! i)
                             = unat (vb_length (as_buffer a (querybuf_request i)))))))
   \<and> ((\<exists>wI. init K devId vcA wA = Inr (True, vcI, wI)) \<longrightarrow>
        (\<exists>vcP wtP htP fmtP wP vcM wM.
            openCamera_negotiated K vcP wtP htP fmtP wP = Inr (True, vcM, wM)
            \<and> mBuffers vcI = mBuffers vcM \<and> mBufCount vcI = mBufCount vcM
            \<and> mLastFrame vcI = mLastFrame vcM \<and> mWidth vcI = mWidth vcM
            \<and> mHeight vcI = mHeight vcM \<and> mChannels vcI = mChannels vcM))
   \<and> (case grab_iteration K vc buf w of
         Inl f \<Rightarrow> True
       | Inr (vc', buf', w') \<Rightarrow>
           mBuffers vc' = mBuffers vc \<and> mBufCount vc' = mBufCount vc
           \<and> mWidth vc' = mWidth vc \<and> mHeight vc' = mHeight vc \<and> mChannels vc' = mChannels vc
           \<and> map_option length (frame_data (mLastFrame vc'))
               = map_option length (frame_data (mLastFrame vc)))
   \<and> (sys_ioctl K (mFileDesc vc) VIDIOC_DQBUF (A_buffer buf) w = (0, A_buffer buf1, w1)
      \<and> vb_bytesused buf1 = vb_length buf1 \<and> unat (vb_index buf1) < mBufCount vc
      \<and> mBuffers vc = Some bs \<and> unat (vb_index buf1) < length bs
      \<and> b = bs ! unat (vb_index buf1) \<and> buf_start b \<noteq> 0
      \<and> mapped_bytes K w1 (buf_start b) (buf_length b) = Some src
      \<and> frame_data (mLastFrame vc) = Some payload \<and> mWidth vc \<noteq> 0 \<and> mHeight vc \<noteq> 0 \<longrightarrow>
        length src = buf_length b
        \<and> (if buf_length b \<le> length payload
            then (case grab_iteration K vc buf w of
                    Inl f \<Rightarrow> False
                  | Inr (vc', buf', w') \<Rightarrow>
                      frame_data (mLastFrame vc') = Some (src @ drop (buf_length b) payload)
                      \<and> mNewFrame vc')
            else grab_iteration K vc buf w = Inl HeapOverrun))"
proof (intro conjI impI)
  assume n: "openCamera_negotiated K vc0 wt ht fmt w0 = Inr (True, vcN, wN)"
  from openCamera_negotiated_alloc [OF n]
  show "frame_data (mLastFrame vcN)
        = Some (replicate (nat (mWidth vcN * mHeight vcN * mChannels vcN)) 0)"
    and "mChannels vcN = sint (pix_bytesperline fmt div pix_width fmt)"
    by simp_all
  from openCamera_negotiated_size [OF n]
  show "0 \<le> mWidth vcN * mHeight vcN * mChannels vcN"
    and "mWidth vcN * mHeight vcN * mChannels vcN \<le> 2147483647"
    and "\<exists>vcB req wB. openCamera_buffers K vcB req wB = (True, vcN, wN)
             \<and> mFileDesc vcB = mFileDesc vc0"
    by simp_all
next
  let ?vc1 = "vcB\<lparr>mBuffers := Some (replicate (unat (rb_count req))
                                          \<lparr>buf_start = 0, buf_length = 0\<rparr>),
                     mBufCount := 0\<rparr>"
  let ?q = "querybuf_request i"
  assume h: "openCamera_buffers K vcB req wB = (True, vcO, wO) \<and> i < unat (rb_count req)"
  obtain ok vci wi where m: "map_buffers K i ?vc1 wB = (ok, vci, wi)"
    by (cases "map_buffers K i ?vc1 wB") auto
  obtain r a wi1 where x: "xioctl K (mFileDesc vcB) VIDIOC_QUERYBUF (A_buffer ?q) wi = (r, a, wi1)"
    by (cases "xioctl K (mFileDesc vcB) VIDIOC_QUERYBUF (A_buffer ?q) wi") auto
  obtain addr wi2 where
    p: "sys_mmap K (unat (vb_length (as_buffer a ?q))) (mFileDesc vcB)
          (vb_offset (as_buffer a ?q)) wi1 = (addr, wi2)"
    by (cases "sys_mmap K (unat (vb_length (as_buffer a ?q))) (mFileDesc vcB)
          (vb_offset (as_buffer a ?q)) wi1") auto
  from h have "openCamera_buffers K vcB req wB = (True, vcO, wO)" and "i < unat (rb_count req)"
    by simp_all
  from openCamera_buffers_lengths [OF this m x p]
  show "case map_buffers K i ?vc1 wB of
           (ok, vci, wi) \<Rightarrow>
             (case xioctl K (mFileDesc vcB) VIDIOC_QUERYBUF (A_buffer ?q) wi of
                (r, a, wi1) \<Rightarrow>
                  ok \<and> r \<noteq> - 1 \<and> mBufCount vcO = unat (rb_count req)
                  \<and> (\<exists>bs. mBuffers vcO = Some bs \<and> length bs = unat (rb_count req)
                         \<and> buf_length (bs ! i) = unat (vb_length (as_buffer a ?q))))"
    by (auto simp: m x)
next
  assume "\<exists>wI. init K devId vcA wA = Inr (True, vcI, wI)"
  then obtain wI where "init K devId vcA wA = Inr (True, vcI, wI)" ..
  then show "\<exists>vcP wtP htP fmtP wP vcM wM.
            openCamera_negotiated K vcP wtP htP fmtP wP = Inr (True, vcM, wM)
            \<and> mBuffers vcI = mBuffers vcM \<and> mBufCount vcI = mBufCount vcM
            \<and> mLastFrame vcI = mLastFrame vcM \<and> mWidth vcI = mWidth vcM
            \<and> mHeight vcI = mHeight vcM \<and> mChannels vcI = mChannels vcM"
    by (rule init_from_negotiated)
next
  show "case grab_iteration K vc buf w of
         Inl f \<Rightarrow> True
       | Inr (vc', buf', w') \<Rightarrow>
           mBuffers vc' = mBuffers vc \<and> mBufCount vc' = mBufCount vc
           \<and> mWidth vc' = mWidth vc \<and> mHeight vc' = mHeight vc \<and> mChannels vc' = mChannels vc
           \<and> map_option length (frame_data (mLastFrame vc'))
               = map_option length (frame_data (mLastFrame vc))"
    by (auto split: sum.split dest!: grab_iteration_keeps)
next
  assume h: "sys_ioctl K (mFileDesc vc) VIDIOC_DQBUF (A_buffer buf) w = (0, A_buffer buf1, w1)
      \<and> vb_bytesused buf1 = vb_length buf1 \<and> unat (vb_index buf1) < mBufCount vc
      \<and> mBuffers vc = Some bs \<and> unat (vb_index buf1) < length bs
      \<and> b = bs ! unat (vb_index buf1) \<and> buf_start b \<noteq> 0
      \<and> mapped_bytes K w1 (buf_start b) (buf_length b) = Some src
      \<and> frame_data (mLastFrame vc) = Some payload \<and> mWidth vc \<noteq> 0 \<and> mHeight vc \<noteq> 0"
  then have "mapped_bytes K w1 (buf_start b) (buf_length b) = Some src"
    by blast
  then have len: "length src = buf_length b"
    by (rule mapped_bytes_length)
  then show "length src = buf_length b" .
  from h len show "if buf_length b \<le> length payload
            then (case grab_iteration K vc buf w of
                    Inl f \<Rightarrow> False
                  | Inr (vc', buf', w') \<Rightarrow>
                      frame_data (mLastFrame vc') = Some (src @ drop (buf_length b) payload)
                      \<and> mNewFrame vc')
            else grab_iteration K vc buf w = Inl HeapOverrun"
    by (auto simp: grab_iteration_def store_frame_def memcpy_def as_buffer_def Let_def
        split: prod.splits)
qed

lemma negotiated_eval:
  "openCamera_negotiated (K_cam 8 2 64) (vc_small\<lparr>mFileDesc := 3\<rparr>) 8 2 fmt_small w_start
     = Inr (True, vc_mapped, w_mapped)"
  by (simp add: cam_eval replicate_two fmt_small_def vc_mapped_def w_mapped_def)

text \<open>
  With 0x80000008 bytes per line reported for the width 8 the channel count is
  268435457, and \<^verbatim>\<open>bufSize\<close> = 8 * 2 * 268435457 does not fit an \<^verbatim>\<open>int\<close>.
\<close>

lemma negotiated_overflow:
  "openCamera_negotiated (K_cam 8 2 64) (vc_small\<lparr>mFileDesc := 3\<rparr>) 8 2
       (fmt_small\<lparr>pix_bytesperline := 0x80000008\<rparr>) w_start
     = Inl SignedOverflow"
  by (simp add: cam_eval fmt_small_def)

lemma streaming_reached:
  "(case init (K_cam 8 2 64) 0 vc_small w_start of
      Inl f \<Rightarrow> False
    | Inr (ok, vc, w) \<Rightarrow> ok \<and> vc = vc_streaming \<and> mappings w = mappings w_streaming)"
  by (simp add: cam_eval replicate_two vc_streaming_def vc_mapped_def w_streaming_def
      upt_two)

lemma dqbuf_eval:
  "sys_ioctl (K_cam 8 2 64) (mFileDesc vc_streaming) VIDIOC_DQBUF (A_buffer buf_first) w_streaming
     = (0, A_buffer (buf_first\<lparr>vb_bytesused := 64, vb_length := 64\<rparr>),
        w_streaming\<lparr>trace := [Ioctl 3 VIDIOC_DQBUF (A_buffer buf_first) 0 0]\<rparr>)"
  by (simp add: sys_ioctl_def K_cam_def vc_streaming_def vc_mapped_def vc_small_def
      vc_closed_def w_streaming_def buf_first_def)

lemma buffers_eval:
  "openCamera_buffers (K_cam 8 2 64) (vc_mapped\<lparr>mBuffers := None\<rparr>)
      \<lparr>rb_count = 2, rb_type = 1, rb_memory = 1\<rparr>
      (w_mapped\<lparr>trace := take 2 (trace w_mapped), mappings := []\<rparr>)
     = (True, vc_mapped, w_mapped)"
  by (simp add: cam_eval replicate_two vc_mapped_def w_mapped_def)

lemma init_eval:
  "\<exists>wI. init (K_cam 8 2 64) 0 vc_small w_start = Inr (True, vc_streaming, wI)"
  by (simp add: cam_eval replicate_two upt_two vc_streaming_def vc_mapped_def)

lemma dqbuf_fitting_eval:
  "sys_ioctl (K_cam 8 2 32) 3 VIDIOC_DQBUF (A_buffer buf_first)
      (w_streaming\<lparr>mappings := [(4096, 32), (4128, 32)]\<rparr>)
     = (0, A_buffer (buf_first\<lparr>vb_bytesused := 32, vb_length := 32\<rparr>),
        w_streaming\<lparr>trace := [Ioctl 3 VIDIOC_DQBUF (A_buffer buf_first) 0 0],
                    mappings := [(4096, 32), (4128, 32)]\<rparr>)"
  by (simp add: sys_ioctl_def K_cam_def w_streaming_def buf_first_def)

lemma querybuf_turn_eval:
  "(case map_buffers (K_cam 8 2 64) 1
           (vc_mapped\<lparr>mBuffers := Some (replicate 2 \<lparr>buf_start = 0, buf_length = 0\<rparr>),
                      mBufCount := 0\<rparr>)
           (w_mapped\<lparr>trace := take 2 (trace w_mapped), mappings := []\<rparr>) of
      (ok, vci, wi) \<Rightarrow>
        (case xioctl (K_cam 8 2 64) 3 VIDIOC_QUERYBUF (A_buffer (querybuf_request 1)) wi of
           (r, a, wi1) \<Rightarrow>
             ok \<and> r = 0 \<and> unat (vb_length (as_buffer a (querybuf_request 1))) = 64))"
  by (simp add: cam_eval replicate_two vc_mapped_def w_mapped_def)

text \<open>
  The theorem at the example camera with buffers of 64 bytes and a payload of
  8 * 2 * 2 = 32 bytes: the length recorded for buffer 1 is the 64 of the kernel's
  answer, and the first frame overruns the payload. At the same camera with buffers of
  32 bytes the frame is copied and the buffer array is kept.
\<close>

theorem grab_copy_length_witness:
  "openCamera_negotiated (K_cam 8 2 64) (vc_small\<lparr>mFileDesc := 3\<rparr>) 8 2 fmt_small w_start
     = Inr (True, vc_mapped, w_mapped)
   \<and> frame_data (mLastFrame vc_mapped) = Some (replicate 32 0)
   \<and> mChannels vc_mapped = 2
   \<and> openCamera_buffers (K_cam 8 2 64) (vc_mapped\<lparr>mBuffers := None\<rparr>)
        \<lparr>rb_count = 2, rb_type = 1, rb_memory = 1\<rparr>
        (w_mapped\<lparr>trace := take 2 (trace w_mapped), mappings := []\<rparr>)
       = (True, vc_mapped, w_mapped)
   \<and> (case map_buffers (K_cam 8 2 64) 1
              (vc_mapped\<lparr>mBuffers := Some (replicate 2 \<lparr>buf_start = 0, buf_length = 0\<rparr>),
                         mBufCount := 0\<rparr>)
              (w_mapped\<lparr>trace := take 2 (trace w_mapped), mappings := []\<rparr>) of
         (ok, vci, wi) \<Rightarrow>
           (case xioctl (K_cam 8 2 64) 3 VIDIOC_QUERYBUF (A_buffer (querybuf_request 1)) wi of
              (r, a, wi1) \<Rightarrow>
                ok \<and> r = 0 \<and> unat (vb_length (as_buffer a (querybuf_request 1))) = 64))
   \<and> (\<exists>bs. mBuffers vc_mapped = Some bs \<and> length bs = 2 \<and> buf_length (bs ! 1) = 64)
   \<and> (\<exists>wI. init (K_cam 8 2 64) 0 vc_small w_start = Inr (True, vc_streaming, wI))
   \<and> mBuffers vc_streaming = mBuffers vc_mapped
   \<and> mBuffers vc_streaming
       = Some [\<lparr>buf_start = 4096, buf_length = 64\<rparr>, \<lparr>buf_start = 4160, buf_length = 64\<rparr>]
   \<and> grab_iteration (K_cam 8 2 64) vc_streaming buf_first w_streaming = Inl HeapOverrun
   \<and> (case grab_iteration (K_cam 8 2 32)
              (vc_streaming\<lparr>mBuffers := Some [\<lparr>buf_start = 4096, buf_length = 32\<rparr>,
                                               \<lparr>buf_start = 4128, buf_length = 32\<rparr>]\<rparr>)
              buf_first (w_streaming\<lparr>mappings := [(4096, 32), (4128, 32)]\<rparr>) of
         Inl f \<Rightarrow> False
       | Inr (vc', buf', w') \<Rightarrow>
           frame_data (mLastFrame vc') = Some (replicate 32 0xAB)
           \<and> mBuffers vc' = Some [\<lparr>buf_start = 4096, buf_length = 32\<rparr>,
                                   \<lparr>buf_start = 4128, buf_length = 32\<rparr>])"
proof -
  from grab_copy_length [THEN conjunct1, THEN mp, OF negotiated_eval]
  have a: "frame_data (mLastFrame vc_mapped) = Some (replicate 32 0)" "mChannels vc_mapped = 2"
    by (simp_all add: vc_mapped_def fmt_small_def)
  from grab_copy_length [where K = "K_cam 8 2 64" and vcB = "vc_mapped\<lparr>mBuffers := None\<rparr>"
      and req = "\<lparr>rb_count = 2, rb_type = 1, rb_memory = 1\<rparr>"
      and wB = "w_mapped\<lparr>trace := take 2 (trace w_mapped), mappings := []\<rparr>"
      and vcO = vc_mapped and wO = w_mapped and i = 1, THEN conjunct2, THEN conjunct1]
    querybuf_turn_eval
  have b: "\<exists>bs. mBuffers vc_mapped = Some bs \<and> length bs = 2 \<and> buf_length (bs ! 1) = 64"
    unfolding buffers_eval
    by (auto simp: vc_mapped_def split: prod.splits)
  have s: "mBuffers vc_streaming = mBuffers vc_mapped"
    "mBuffers vc_streaming
       = Some [\<lparr>buf_start = 4096, buf_length = 64\<rparr>, \<lparr>buf_start = 4160, buf_length = 64\<rparr>]"
    by (simp_all add: vc_streaming_def vc_mapped_def)
  from grab_copy_length [where K = "K_cam 8 2 64" and vc = vc_streaming and buf = buf_first
      and w = w_streaming and ?buf1.0 = "buf_first\<lparr>vb_bytesused := 64, vb_length := 64\<rparr>"
      and ?w1.0 = "w_streaming\<lparr>trace := [Ioctl 3 VIDIOC_DQBUF (A_buffer buf_first) 0 0]\<rparr>"
      and bs = "[\<lparr>buf_start = 4096, buf_length = 64\<rparr>, \<lparr>buf_start = 4160, buf_length = 64\<rparr>]"
      and b = "\<lparr>buf_start = 4096, buf_length = 64\<rparr>" and src = "replicate 64 0xAB"
      and payload = "replicate 32 0",
      THEN conjunct2, THEN conjunct2, THEN conjunct2, THEN conjunct2]
  have over: "grab_iteration (K_cam 8 2 64) vc_streaming buf_first w_streaming = Inl HeapOverrun"
    unfolding dqbuf_eval
    by (simp add: vc_streaming_def vc_mapped_def vc_small_def vc_closed_def w_streaming_def
        buf_first_def mapped_bytes_def K_cam_def frame_empty_def)
  let ?vc = "vc_streaming\<lparr>mBuffers := Some [\<lparr>buf_start = 4096, buf_length = 32\<rparr>,
                                               \<lparr>buf_start = 4128, buf_length = 32\<rparr>]\<rparr>"
  let ?w = "w_streaming\<lparr>mappings := [(4096, 32), (4128, 32)]\<rparr>"
  have fd: "mFileDesc ?vc = 3"
    by (simp add: vc_streaming_def vc_mapped_def)
  from grab_copy_length [where K = "K_cam 8 2 32" and vc = ?vc and buf = buf_first and w = ?w
      and ?buf1.0 = "buf_first\<lparr>vb_bytesused := 32, vb_length := 32\<rparr>"
      and ?w1.0 = "w_streaming\<lparr>trace := [Ioctl 3 VIDIOC_DQBUF (A_buffer buf_first) 0 0],
                    mappings := [(4096, 32), (4128, 32)]\<rparr>"
      and bs = "[\<lparr>buf_start = 4096, buf_length = 32\<rparr>, \<lparr>buf_start = 4128, buf_length = 32\<rparr>]"
      and b = "\<lparr>buf_start = 4096, buf_length = 32\<rparr>" and src = "replicate 32 0xAB"
      and payload = "replicate 32 0",
      THEN conjunct2, THEN conjunct2, THEN conjunct2, THEN conjunct2]
    grab_copy_length [where K = "K_cam 8 2 32" and vc = ?vc and buf = buf_first and w = ?w,
      THEN conjunct2, THEN conjunct2, THEN conjunct2, THEN conjunct1]
  have fit: "case grab_iteration (K_cam 8 2 32) ?vc buf_first ?w of
         Inl f \<Rightarrow> False
       | Inr (vc', buf', w') \<Rightarrow>
           frame_data (mLastFrame vc') = Some (replicate 32 0xAB)
           \<and> mBuffers vc' = Some [\<lparr>buf_start = 4096, buf_length = 32\<rparr>,
                                   \<lparr>buf_start = 4128, buf_length = 32\<rparr>]"
    unfolding fd dqbuf_fitting_eval
    by (auto simp: vc_streaming_def vc_mapped_def vc_small_def vc_closed_def w_streaming_def
        buf_first_def mapped_bytes_def K_cam_def frame_empty_def split: sum.splits prod.splits)
  from negotiated_eval a buffers_eval querybuf_turn_eval b init_eval s over fit
  show ?thesis by blast
qed

end
